theory Spec2Isabelle
  imports Main
begin

section \<open>JavaScript values and their rendering\<close>

text \<open>
  The values the program looks at (the fields of \<^verbatim>\<open>config.json\<close>, the arguments of the
  library events): it tests their truthiness, compares them with \<^verbatim>\<open>===\<close> and prints them
  through template literals.
  \<open>JNum n\<close> is the number that JavaScript writes in decimal as the integer \<open>n\<close> (up to
  2 to the 53 that is the integer \<open>n\<close> itself). \<open>JFraction r\<close> is a number with a fractional
  part, or an infinity, carrying what a template literal prints for it; it is not 0.
  \<open>JNaN\<close> is \<^verbatim>\<open>NaN\<close>, which is falsy.
  \<open>JObject r\<close> is an array or an object, carrying its \<^verbatim>\<open>String(...)\<close> rendering \<open>r\<close>.
\<close>

datatype jsval =
    JUndefined | JNull | JBool bool | JNum int | JFraction string | JNaN | JStr string
  | JObject string

fun truthy :: "jsval \<Rightarrow> bool" where
  "truthy JUndefined = False"
| "truthy JNull = False"
| "truthy (JBool b) = b"
| "truthy (JNum n) = (n \<noteq> 0)"
| "truthy (JFraction r) = True"
| "truthy JNaN = False"
| "truthy (JStr s) = (s \<noteq> [])"
| "truthy (JObject r) = True"

text \<open>The decimal digit \<open>d\<close>, for \<open>d < 10\<close>.\<close>

definition digit_char :: "nat \<Rightarrow> char" where
  "digit_char d = ''0123456789'' ! d"

fun show_nat :: "nat \<Rightarrow> string" where
  "show_nat n = (if n < 10 then [digit_char n] else show_nat (n div 10) @ [digit_char (n mod 10)])"

declare show_nat.simps [simp del]

text \<open>
  What a template literal prints for a number written in decimal as the integer \<open>i\<close>: all
  its digits below 10 to the 21, and from there on the exponent form, the significant digits
  (without the zeros at the end, a point after the first) and the power of ten.
\<close>

definition exponent_form :: "nat \<Rightarrow> string" where
  "exponent_form m =
     (let digits = show_nat m;
          significant = rev (dropWhile (\<lambda>c. c = CHR ''0'') (rev digits))
      in (case significant of
            [] \<Rightarrow> []
          | d # rest \<Rightarrow> (if rest = [] then [d] else d # CHR ''.'' # rest)) @
         ''e+'' @ show_nat (length digits - 1))"

definition js_number :: "int \<Rightarrow> string" where
  "js_number i =
     (let body = (if \<bar>i\<bar> < 1000000000000000000000 then show_nat (nat \<bar>i\<bar>)
                  else exponent_form (nat \<bar>i\<bar>))
      in if i < 0 then CHR ''-'' # body else body)"

text \<open>What a template literal \<^verbatim>\<open>${v}\<close> prints for a value.\<close>

fun js_string :: "jsval \<Rightarrow> string" where
  "js_string JUndefined = ''undefined''"
| "js_string JNull = ''null''"
| "js_string (JBool b) = (if b then ''true'' else ''false'')"
| "js_string (JNum n) = js_number n"
| "js_string (JFraction r) = r"
| "js_string JNaN = ''NaN''"
| "js_string (JStr s) = s"
| "js_string (JObject r) = r"

text \<open>The pictographs of the console messages, as the UTF-8 bytes written to stdout.\<close>

definition e_cross :: string where "e_cross = [CHR 0xE2, CHR 0x9D, CHR 0x8C]"
definition e_check :: string where "e_check = [CHR 0xE2, CHR 0x9C, CHR 0x85]"
definition e_warning :: string where
  "e_warning = [CHR 0xE2, CHR 0x9A, CHR 0xA0, CHR 0xEF, CHR 0xB8, CHR 0x8F]"
definition e_clipboard :: string where "e_clipboard = [CHR 0xF0, CHR 0x9F, CHR 0x93, CHR 0x8B]"
definition e_rocket :: string where "e_rocket = [CHR 0xF0, CHR 0x9F, CHR 0x9A, CHR 0x80]"
definition e_chart :: string where "e_chart = [CHR 0xF0, CHR 0x9F, CHR 0x93, CHR 0x8A]"
definition e_glass :: string where "e_glass = [CHR 0xF0, CHR 0x9F, CHR 0x94, CHR 0x8D]"
definition e_gamepad :: string where "e_gamepad = [CHR 0xF0, CHR 0x9F, CHR 0x8E, CHR 0xAE]"
definition e_fire :: string where "e_fire = [CHR 0xF0, CHR 0x9F, CHR 0x94, CHR 0xA5]"
definition e_flag :: string where "e_flag = [CHR 0xF0, CHR 0x9F, CHR 0x8F, CHR 0x81]"
definition e_party :: string where "e_party = [CHR 0xF0, CHR 0x9F, CHR 0x8E, CHR 0x89]"
definition e_prohibited :: string where "e_prohibited = [CHR 0xF0, CHR 0x9F, CHR 0x9A, CHR 0xAB]"
definition e_wave :: string where "e_wave = [CHR 0xF0, CHR 0x9F, CHR 0x91, CHR 0x8B]"
definition e_stop :: string where "e_stop = [CHR 0xF0, CHR 0x9F, CHR 0x9B, CHR 0x91]"
definition e_lock :: string where "e_lock = [CHR 0xF0, CHR 0x9F, CHR 0x94, CHR 0x90]"
definition e_key :: string where "e_key = [CHR 0xF0, CHR 0x9F, CHR 0x94, CHR 0x91]"

section \<open>Loading the configuration (\<^verbatim>\<open>loadConfig\<close>, lines 11 to 48)\<close>

text \<open>
  What \<^verbatim>\<open>JSON.parse\<close> returns at top level: an object (a dictionary of its fields),
  \<^verbatim>\<open>null\<close>, or something else (an array, a number, a string, a boolean), which has
  none of the four properties the program reads.
\<close>

datatype json_top = TopObject "string \<rightharpoonup> jsval" | TopNull | TopOther

text \<open>
  The file system as \<^verbatim>\<open>loadConfig\<close> sees it: \<^verbatim>\<open>config.json\<close> is absent, or reading
  or parsing it throws an error with a message, or it parses.
\<close>

datatype config_file = NoFile | Unreadable string | Content json_top

text \<open>\<^verbatim>\<open>config[field]\<close>: a missing property is \<^verbatim>\<open>undefined\<close>.\<close>

definition get_prop :: "(string \<rightharpoonup> jsval) \<Rightarrow> string \<Rightarrow> jsval" where
  "get_prop obj field = (case obj field of None \<Rightarrow> JUndefined | Some v \<Rightarrow> v)"

definition dq :: string where "dq = [CHR 0x22]"

definition nl :: string where "nl = [CHR 0x0A]"

text \<open>The sample structure printed when the file is absent: \<^verbatim>\<open>JSON.stringify(..., null, 2)\<close>.\<close>

definition json_member :: "string \<Rightarrow> string \<Rightarrow> string" where
  "json_member k v = ''  '' @ dq @ k @ dq @ '': '' @ dq @ v @ dq"

definition config_template :: string where
  "config_template =
     ''{'' @ nl @
     json_member ''steam_username'' ''your_steam_username'' @ '','' @ nl @
     json_member ''steam_password'' ''your_steam_password'' @ '','' @ nl @
     json_member ''shared_secret'' ''your_shared_secret_from_mafile'' @ '','' @ nl @
     json_member ''test_steam_id'' ''76561199556731347'' @ nl @
     ''}''"

definition required :: "string list" where
  "required = [''steam_username'', ''steam_password'', ''shared_secret'']"

text \<open>
  The validation loop over \<^verbatim>\<open>required\<close>: the first field whose value is falsy ends the
  process; \<open>None\<close> when every field passes.
\<close>

fun first_missing :: "(string \<rightharpoonup> jsval) \<Rightarrow> string list \<Rightarrow> string option" where
  "first_missing obj [] = None"
| "first_missing obj (field # fields) =
     (if \<not> truthy (get_prop obj field) then Some field else first_missing obj fields)"

text \<open>
  The message of the TypeError that \<^verbatim>\<open>config[field]\<close> throws when the file holds
  \<^verbatim>\<open>null\<close> (the engine's wording); the \<^verbatim>\<open>catch\<close> of \<^verbatim>\<open>loadConfig\<close> prints it.
\<close>

definition null_read_message :: "string \<Rightarrow> string" where
  "null_read_message field = ''Cannot read properties of null (reading '' @ [CHR 0x27] @ field @ [CHR 0x27] @ '')''"

text \<open>
  \<^verbatim>\<open>loadConfig\<close> returns the lines it printed and either the exit code it ended the
  process with (\<open>Inl\<close>) or the configuration object (\<open>Inr\<close>). On \<^verbatim>\<open>null\<close> and on a
  value that is not an object the loop stops in its first iteration, at
  \<^verbatim>\<open>steam_username\<close>: the read throws on \<^verbatim>\<open>null\<close> and gives \<^verbatim>\<open>undefined\<close> otherwise.
\<close>

definition loadConfig :: "config_file \<Rightarrow> string list \<times> (int + (string \<rightharpoonup> jsval))" where
  "loadConfig file =
     (case file of
        NoFile \<Rightarrow>
          ([e_cross @ '' config.json not found!'',
            e_clipboard @ '' Please create config.json with the following structure:'',
            config_template], Inl 1)
      | Unreadable message \<Rightarrow>
          ([e_cross @ '' Error reading config.json: '' @ message], Inl 1)
      | Content TopNull \<Rightarrow>
          ([e_cross @ '' Error reading config.json: '' @ null_read_message ''steam_username''],
           Inl 1)
      | Content TopOther \<Rightarrow>
          ([e_cross @ '' Missing required field in config.json: steam_username''], Inl 1)
      | Content (TopObject obj) \<Rightarrow>
          (case first_missing obj required of
             Some field \<Rightarrow>
               ([e_cross @ '' Missing required field in config.json: '' @ field], Inl 1)
           | None \<Rightarrow>
               ([], Inr (if \<not> truthy (get_prop obj ''test_steam_id'')
                         then obj(''test_steam_id'' \<mapsto> JStr ''76561199556731347'')
                         else obj))))"

section \<open>The collaborators and the program state\<close>

text \<open>
  What the program takes from its libraries. The four \<^verbatim>\<open>SteamUser.EResult\<close> codes that the
  error handler compares with are constants of the \<^verbatim>\<open>steam-user\<close> package, which is not
  part of the repository: they are parameters here. \<open>totp_generateAuthCode\<close> is
  \<^verbatim>\<open>SteamTotp.generateAuthCode\<close> (\<open>Inl\<close> the message of the error it throws, \<open>Inr\<close> the
  code), and \<open>logOff_error\<close> the message of the error \<^verbatim>\<open>steamClient.logOff()\<close> throws, if it
  throws. These two are the library calls the program wraps in \<^verbatim>\<open>try\<close>.
  \<open>SteamID_error\<close> is the message of the error the constructor \<^verbatim>\<open>new SteamID(id)\<close> throws
  when it cannot read \<open>id\<close> (\<open>None\<close> when it constructs): the program calls it outside any
  \<^verbatim>\<open>try\<close>. Every other library call is taken to return.
\<close>

record library =
  InvalidPassword :: int
  TwoFactorCodeMismatch :: int
  AccountLoginDeniedNeedTwoFactor :: int
  RateLimitExceeded :: int
  totp_generateAuthCode :: "jsval \<Rightarrow> string + string"
  logOff_error :: "string option"
  SteamID_error :: "jsval \<Rightarrow> string option"

text \<open>The calls the program makes on the Steam client and the coordinator client.\<close>

datatype client_call =
    LogOn jsval jsval string
  | SetPersonaOnline
  | GamesPlayed "nat list"
  | RequestPlayersProfile jsval
  | LogOff

text \<open>
  The module's variables, its pending timers, the console and the process.
  A timer is \<open>Some due\<close> while it is pending (\<open>due\<close> the time it was armed plus its delay)
  and \<open>None\<close> once it has fired or was cleared. \<open>requests\<close> has one entry per call of
  \<^verbatim>\<open>testProfileRequest\<close>: its \<^verbatim>\<open>requestStartTime\<close> and its \<^verbatim>\<open>requestTimeout\<close>.
  \<open>exitTimer\<close> is the timer \<^verbatim>\<open>completeTest\<close> sets, with the \<^verbatim>\<open>result\<close> its function
  closes over. \<open>exited\<close> is the code \<^verbatim>\<open>process.exit\<close> was called with.
\<close>

record state =
  STEAM_USERNAME :: jsval
  STEAM_PASSWORD :: jsval
  SHARED_SECRET :: jsval
  TEST_STEAM_ID :: jsval
  testStartTime :: int
  gcConnectStartTime :: "int option"
  testCompleted :: bool
  testTimeout :: "int option"
  gcTimeout :: "int option"
  requests :: "(int \<times> int option) list"
  exitTimer :: "(int \<times> string) option"
  console :: "string list"
  calls :: "client_call list"
  exited :: "int option"

definition console_log :: "string list \<Rightarrow> state \<Rightarrow> state" where
  "console_log ls s = s\<lparr>console := console s @ ls\<rparr>"

definition call :: "client_call \<Rightarrow> state \<Rightarrow> state" where
  "call c s = s\<lparr>calls := calls s @ [c]\<rparr>"

definition process_exit :: "int \<Rightarrow> state \<Rightarrow> state" where
  "process_exit code s = s\<lparr>exited := Some code\<rparr>"

text \<open>
  An exception thrown in a listener and caught nowhere ends the process: Node exits with
  code 1 (it writes the stack trace to stderr, not to the console).
\<close>

definition uncaught_exception :: "state \<Rightarrow> state" where
  "uncaught_exception s = process_exit 1 s"

section \<open>The completion routine (\<^verbatim>\<open>completeTest\<close>, lines 197 to 242)\<close>

definition report :: "string \<Rightarrow> int \<Rightarrow> string list" where
  "report result totalDuration =
     ['''',
      e_flag @ '' TEST COMPLETED'',
      e_chart @ '' Results:'',
      ''   - Result: '' @ result,
      ''   - Total Duration: '' @ js_number totalDuration @ ''ms'',
      ''   - Steam Login: '' @ e_check @ '' Success'',
      ''   - GC Connection: '' @
         (if result = ''TIMEOUT'' then e_cross @ '' Failed/Banned'' else e_check @ '' Success''),
      ''   - Profile Request: '' @
         (if result = ''SUCCESS'' then e_check @ '' Success'' else e_cross @ '' Failed'')]"

definition conclusion :: "string \<Rightarrow> string list" where
  "conclusion result =
     (if result = ''SUCCESS'' then
        ['''',
         e_party @ '' ALL TESTS PASSED!'',
         e_check @ '' Account is NOT banned'',
         e_check @ '' IP/Hardware is NOT banned'',
         e_check @ '' GC connection is working'',
         e_glass @ '' The issue in your main service might be elsewhere'']
      else if result = ''TIMEOUT'' then
        ['''',
         e_prohibited @ '' SOFT BAN DETECTED'',
         e_cross @ '' GC is not responding to requests'',
         e_glass @ '' This could be:'',
         ''   - Account-level soft ban'',
         ''   - IP/Hardware-level soft ban'',
         ''   - If this test passes on Render.com but fails locally,'',
         ''     then it'' @ [CHR 0x27] @ ''s likely IP/Hardware ban on your local setup'']
      else [])"

definition clean_logout :: "library \<Rightarrow> state \<Rightarrow> state" where
  "clean_logout lib s =
     (case logOff_error lib of
        None \<Rightarrow> console_log [e_wave @ '' Logged off Steam''] (call LogOff s)
      | Some message \<Rightarrow> console_log [e_warning @ '' Logout error: '' @ message] (call LogOff s))"

definition completeTest :: "library \<Rightarrow> int \<Rightarrow> string \<Rightarrow> state \<Rightarrow> state" where
  "completeTest lib now result s =
     (if testCompleted s then s
      else
        let s1 = s\<lparr>testCompleted := True, testTimeout := None\<rparr>;
            totalDuration = now - testStartTime s1;
            s2 = console_log (report result totalDuration @ conclusion result) s1;
            s3 = clean_logout lib s2
        in s3\<lparr>exitTimer := Some (now + 1000, result)\<rparr>)"

text \<open>The function of the exit timer: \<^verbatim>\<open>process.exit(result === 'SUCCESS' ? 0 : 1)\<close>.\<close>

definition exit_code :: "string \<Rightarrow> int" where
  "exit_code result = (if result = ''SUCCESS'' then 0 else 1)"

section \<open>The event handlers\<close>

text \<open>
  Each handler takes \<open>now\<close>, the value \<^verbatim>\<open>Date.now()\<close> has while it runs (a handler runs at
  one instant), and returns the state it leaves. \<^verbatim>\<open>process.exit\<close> is the last statement of
  every branch that calls it.
\<close>

text \<open>\<^verbatim>\<open>steamClient.on('error')\<close>, lines 98 to 116; \<open>eresult\<close> is \<^verbatim>\<open>err.eresult\<close>.\<close>

definition diagnosis :: "library \<Rightarrow> jsval \<Rightarrow> string" where
  "diagnosis lib eresult =
     (if eresult = JNum (InvalidPassword lib) then
        ''   - Diagnosis: Invalid credentials''
      else if eresult = JNum (TwoFactorCodeMismatch lib) then
        ''   - Diagnosis: 2FA code mismatch''
      else if eresult = JNum (AccountLoginDeniedNeedTwoFactor lib) then
        ''   - Diagnosis: 2FA required but not provided correctly''
      else if eresult = JNum (RateLimitExceeded lib) then
        ''   - Diagnosis: Login rate limited''
      else
        ''   - Diagnosis: Unknown error ('' @ js_string eresult @ '')'')"

definition on_error :: "library \<Rightarrow> string \<Rightarrow> jsval \<Rightarrow> state \<Rightarrow> state" where
  "on_error lib message eresult s =
     process_exit 1
       (console_log
          [e_cross @ '' Steam Error: '' @ message,
           e_glass @ '' Error Details:'',
           ''   - EResult: '' @ js_string eresult,
           diagnosis lib eresult] s)"

text \<open>
  \<^verbatim>\<open>steamClient.on('loggedOn')\<close>, lines 118 to 132; \<open>steamID64\<close> is
  \<^verbatim>\<open>steamClient.steamID.getSteamID64()\<close> and \<open>name\<close> is \<^verbatim>\<open>steamClient.accountInfo?.name\<close>.
\<close>

definition on_loggedOn :: "int \<Rightarrow> string \<Rightarrow> jsval \<Rightarrow> state \<Rightarrow> state" where
  "on_loggedOn now steamID64 name s =
     (let loginDuration = now - testStartTime s;
          s1 = console_log
                 [e_check @ '' Steam Login Successful! ('' @ js_number loginDuration @ ''ms)'',
                  e_chart @ '' Account Info:'',
                  ''   - Steam ID: '' @ steamID64,
                  ''   - Account Name: '' @ (if truthy name then js_string name else ''Unknown'')] s;
          s2 = call SetPersonaOnline s1;
          s3 = console_log [e_gamepad @ '' Launching CS2...''] s2;
          s4 = s3\<lparr>gcConnectStartTime := Some now\<rparr>
      in call (GamesPlayed [730]) s4)"

text \<open>\<^verbatim>\<open>steamClient.on('disconnected')\<close>, lines 134 to 140.\<close>

definition on_disconnected :: "jsval \<Rightarrow> jsval \<Rightarrow> state \<Rightarrow> state" where
  "on_disconnected eresult msg s =
     (let s1 = console_log
                 [e_warning @ '' Steam Disconnected: '' @ js_string eresult @ '' - '' @ js_string msg] s
      in if \<not> testCompleted s1 then
           process_exit 1 (console_log [e_glass @ '' Unexpected disconnection during test''] s1)
         else s1)"

text \<open>
  \<^verbatim>\<open>testProfileRequest\<close>, lines 163 to 194: it constructs the \<^verbatim>\<open>SteamID\<close> of the target
  (line 164; when the constructor throws, nothing catches the exception), arms the request's
  30 second timer and sends the request. Its two callbacks are \<open>requestTimeout_expired\<close> and
  \<open>on_profile\<close> below; \<open>k\<close> is the index of the request in \<open>requests\<close>.
\<close>

definition testProfileRequest :: "library \<Rightarrow> int \<Rightarrow> state \<Rightarrow> state" where
  "testProfileRequest lib now s =
     (case SteamID_error lib (TEST_STEAM_ID s) of
        Some message \<Rightarrow> uncaught_exception s
      | None \<Rightarrow>
          call (RequestPlayersProfile (TEST_STEAM_ID s))
            (s\<lparr>requests := requests s @ [(now, Some (now + 30000))]\<rparr>))"

definition requestTimeout_expired :: "library \<Rightarrow> int \<Rightarrow> state \<Rightarrow> state" where
  "requestTimeout_expired lib now s =
     completeTest lib now ''TIMEOUT''
       (console_log
          [e_cross @ '' Profile Request Timeout (30s)'',
           e_glass @ '' Possible causes:'',
           ''   - GC is throttling requests (soft ban)'',
           ''   - Steam ID is invalid'',
           ''   - Network issues''] s)"

text \<open>
  The fields of a profile the callback prints: \<open>medals_count\<close> is
  \<^verbatim>\<open>profile.medals?.display_items_defidx?.length\<close> (\<open>None\<close> when the chain is undefined) and
  \<open>commendation\<close> the JSON text of \<^verbatim>\<open>profile.commendation\<close> when that is truthy.
\<close>

record profile =
  account_id :: jsval
  medals_count :: "nat option"
  commendation :: "string option"
  player_level :: jsval

definition clearTimeout_request :: "nat \<Rightarrow> state \<Rightarrow> state" where
  "clearTimeout_request k s = s\<lparr>requests := (requests s)[k := (fst (requests s ! k), None)]\<rparr>"

definition on_profile :: "library \<Rightarrow> int \<Rightarrow> nat \<Rightarrow> profile option \<Rightarrow> state \<Rightarrow> state" where
  "on_profile lib now k payload s =
     (let s1 = clearTimeout_request k s;
          requestDuration = now - fst (requests s ! k)
      in case payload of
           Some p \<Rightarrow>
             completeTest lib now ''SUCCESS''
               (console_log
                  [e_check @ '' Profile Request Successful! ('' @ js_number requestDuration @ ''ms)'',
                   e_chart @ '' Profile Data:'',
                   ''   - Account ID: '' @ js_string (account_id p),
                   ''   - Total Medals: '' @
                      show_nat (case medals_count p of None \<Rightarrow> 0 | Some n \<Rightarrow> n),
                   ''   - Commendations: '' @
                      (case commendation p of None \<Rightarrow> ''{}'' | Some j \<Rightarrow> j),
                   ''   - Level: '' @
                      (if truthy (player_level p) then js_string (player_level p) else ''Unknown'')]
                  s1)
         | None \<Rightarrow>
             completeTest lib now ''NO_DATA''
               (console_log [e_cross @ '' Profile Request Failed - No data received''] s1))"

text \<open>
  \<^verbatim>\<open>csgo.on('connectedToGC')\<close>, lines 143 to 152. \<^verbatim>\<open>Date.now() - gcConnectStartTime\<close>
  subtracts 0 while the variable is \<^verbatim>\<open>null\<close>.
\<close>

definition on_connectedToGC :: "library \<Rightarrow> int \<Rightarrow> state \<Rightarrow> state" where
  "on_connectedToGC lib now s =
     (let gcConnectDuration = now - (case gcConnectStartTime s of None \<Rightarrow> 0 | Some t \<Rightarrow> t)
      in testProfileRequest lib now
           (console_log
              [e_check @ '' GC Connection Successful! ('' @ js_number gcConnectDuration @ ''ms)'',
               e_fire @ '' NO SOFT BAN DETECTED - Account and IP/hardware are clean'',
               '''',
               e_glass @ '' Testing profile request for '' @ js_string (TEST_STEAM_ID s) @ ''...''] s))"

text \<open>\<^verbatim>\<open>csgo.on('disconnectedFromGC')\<close>, lines 154 to 160.\<close>

definition on_disconnectedFromGC :: "jsval \<Rightarrow> state \<Rightarrow> state" where
  "on_disconnectedFromGC reason s =
     (let s1 = console_log [e_cross @ '' GC Disconnected: '' @ js_string reason] s
      in if \<not> testCompleted s1 then
           process_exit 1
             (console_log [e_glass @ '' This may indicate a soft ban or connection issue''] s1)
         else s1)"

text \<open>The function of \<^verbatim>\<open>testTimeout\<close>, the timer of 5 minutes, lines 73 to 82.\<close>

definition testTimeout_expired :: "state \<Rightarrow> state" where
  "testTimeout_expired s =
     (if \<not> testCompleted s then
        process_exit 1
          (console_log
             [e_cross @ '' TEST TIMEOUT AFTER 5 MINUTES'',
              e_glass @ '' Possible causes:'',
              ''   - Steam login issues'',
              ''   - GC connection soft ban'',
              ''   - Network connectivity problems''] s)
      else s)"

text \<open>
  The function of the timer of 2 minutes, lines 258 to 265. \<^verbatim>\<open>gcConnectStartTime\<close> is
  truthy when it is a number other than 0.
\<close>

definition gcTimeout_expired :: "library \<Rightarrow> int \<Rightarrow> state \<Rightarrow> state" where
  "gcTimeout_expired lib now s =
     (if \<not> testCompleted s \<and> (case gcConnectStartTime s of None \<Rightarrow> False | Some t \<Rightarrow> t \<noteq> 0) then
        completeTest lib now ''GC_TIMEOUT''
          (console_log
             [e_cross @ '' GC Connection Timeout (2 minutes)'',
              e_prohibited @ '' SOFT BAN LIKELY DETECTED'',
              e_glass @ '' GC is not accepting connections within reasonable time''] s)
      else s)"

text \<open>The handlers of SIGINT and SIGTERM, lines 268 to 276.\<close>

definition on_SIGINT :: "library \<Rightarrow> int \<Rightarrow> state \<Rightarrow> state" where
  "on_SIGINT lib now s =
     completeTest lib now ''INTERRUPTED''
       (console_log [nl @ e_stop @ '' Test interrupted by user''] s)"

definition on_SIGTERM :: "library \<Rightarrow> int \<Rightarrow> state \<Rightarrow> state" where
  "on_SIGTERM lib now s =
     completeTest lib now ''TERMINATED'' (console_log [nl @ e_stop @ '' Test terminated''] s)"

section \<open>The event loop\<close>

text \<open>
  What can happen to the running process: an event of a library, a timer that fires, a
  signal. A timer fires only while it is pending and not before it is due, and then it is
  no longer pending. Nothing happens to a process that has exited, and a request that was
  never made has no callback.
\<close>

datatype event =
    SteamError string jsval
  | LoggedOn string jsval
  | Disconnected jsval jsval
  | ConnectedToGC
  | DisconnectedFromGC jsval
  | ProfileResponse nat "profile option"
  | RequestTimeoutFires nat
  | TestTimeoutFires
  | GcTimeoutFires
  | ExitTimerFires
  | SIGINT
  | SIGTERM

definition step :: "library \<Rightarrow> int \<Rightarrow> event \<Rightarrow> state \<Rightarrow> state" where
  "step lib now ev s =
     (if exited s \<noteq> None then s
      else case ev of
        SteamError message eresult \<Rightarrow> on_error lib message eresult s
      | LoggedOn steamID64 name \<Rightarrow> on_loggedOn now steamID64 name s
      | Disconnected eresult msg \<Rightarrow> on_disconnected eresult msg s
      | ConnectedToGC \<Rightarrow> on_connectedToGC lib now s
      | DisconnectedFromGC reason \<Rightarrow> on_disconnectedFromGC reason s
      | ProfileResponse k payload \<Rightarrow>
          (if k < length (requests s) then on_profile lib now k payload s else s)
      | RequestTimeoutFires k \<Rightarrow>
          (if k < length (requests s) then
             (case snd (requests s ! k) of
                Some due \<Rightarrow>
                  (if due \<le> now then requestTimeout_expired lib now (clearTimeout_request k s)
                   else s)
              | None \<Rightarrow> s)
           else s)
      | TestTimeoutFires \<Rightarrow>
          (case testTimeout s of
             Some due \<Rightarrow> (if due \<le> now then testTimeout_expired (s\<lparr>testTimeout := None\<rparr>) else s)
           | None \<Rightarrow> s)
      | GcTimeoutFires \<Rightarrow>
          (case gcTimeout s of
             Some due \<Rightarrow> (if due \<le> now then gcTimeout_expired lib now (s\<lparr>gcTimeout := None\<rparr>) else s)
           | None \<Rightarrow> s)
      | ExitTimerFires \<Rightarrow>
          (case exitTimer s of
             Some (due, result) \<Rightarrow> (if due \<le> now then process_exit (exit_code result) s else s)
           | None \<Rightarrow> s)
      | SIGINT \<Rightarrow> on_SIGINT lib now s
      | SIGTERM \<Rightarrow> on_SIGTERM lib now s)"

text \<open>A run: the events in the order they happen, each with its time.\<close>

fun run :: "library \<Rightarrow> (int \<times> event) list \<Rightarrow> state \<Rightarrow> state" where
  "run lib [] s = s"
| "run lib ((now, ev) # evs) s = run lib evs (step lib now ev s)"

section \<open>The module body (lines 50 to 82, 244 to 279)\<close>

text \<open>The state of a process that ended inside \<^verbatim>\<open>loadConfig\<close>: nothing was assigned yet.\<close>

definition unassigned :: state where
  "unassigned =
     \<lparr>STEAM_USERNAME = JUndefined, STEAM_PASSWORD = JUndefined, SHARED_SECRET = JUndefined,
      TEST_STEAM_ID = JUndefined, testStartTime = 0, gcConnectStartTime = None,
      testCompleted = False, testTimeout = None, gcTimeout = None, requests = [],
      exitTimer = None, console = [], calls = [], exited = None\<rparr>"

text \<open>
  \<^verbatim>\<open>startTest\<close> with \<^verbatim>\<open>generateAuthCode\<close> (lines 85 to 95 and 245 to 255).
\<close>

definition startTest :: "library \<Rightarrow> state \<Rightarrow> state" where
  "startTest lib s =
     (let s1 = console_log [e_lock @ '' Generating 2FA code...''] s
      in case totp_generateAuthCode lib (SHARED_SECRET s) of
           Inl message \<Rightarrow>
             process_exit 1
               (console_log
                  [e_cross @ '' Failed to generate 2FA code: '' @ message,
                   e_glass @ '' Check your SHARED_SECRET value''] s1)
         | Inr authCode \<Rightarrow>
             call (LogOn (STEAM_USERNAME s) (STEAM_PASSWORD s) authCode)
               (console_log
                  [e_check @ '' Generated 2FA code: '' @ authCode,
                   e_key @ '' Attempting Steam login...''] s1))"

text \<open>The four constants read from the configuration, lines 50 to 54.\<close>

definition read_config :: "(string \<rightharpoonup> jsval) \<Rightarrow> state \<Rightarrow> state" where
  "read_config config s =
     s\<lparr>STEAM_USERNAME := get_prop config ''steam_username'',
       STEAM_PASSWORD := get_prop config ''steam_password'',
       SHARED_SECRET := get_prop config ''shared_secret'',
       TEST_STEAM_ID := get_prop config ''test_steam_id''\<rparr>"

text \<open>The banner, lines 56 to 61; \<open>node_env\<close> is \<^verbatim>\<open>process.env.NODE_ENV\<close>.\<close>

definition banner :: "string option \<Rightarrow> state \<Rightarrow> string list" where
  "banner node_env s =
     [e_rocket @ '' Steam GC Connection Test Starting...'',
      e_chart @ '' Test Parameters:'',
      ''   - Account: '' @ js_string (STEAM_USERNAME s),
      ''   - Test Steam ID: '' @ js_string (TEST_STEAM_ID s),
      ''   - Environment: '' @
         (case node_env of
            None \<Rightarrow> ''development''
          | Some e \<Rightarrow> (if e = [] then ''development'' else e)),
      '''']"

text \<open>
  The state variables (lines 68 to 70) and the two timers the module body arms: the timer
  of 5 minutes (lines 73 to 82) and the timer of 2 minutes (lines 258 to 265). Both are
  armed when the module body runs, at \<open>t0\<close>.
\<close>

definition init_state :: "int \<Rightarrow> state \<Rightarrow> state" where
  "init_state t0 s =
     s\<lparr>testStartTime := t0, gcConnectStartTime := None, testCompleted := False,
       testTimeout := Some (t0 + 300000), gcTimeout := Some (t0 + 120000)\<rparr>"

text \<open>
  The whole module body, run at time \<open>t0\<close>: \<^verbatim>\<open>loadConfig\<close>, the constants, the banner,
  the variables and timers, and last \<^verbatim>\<open>startTest\<close> (line 279).
\<close>

definition startup :: "library \<Rightarrow> config_file \<Rightarrow> string option \<Rightarrow> int \<Rightarrow> state" where
  "startup lib file node_env t0 =
     (case loadConfig file of
        (printed, Inl code) \<Rightarrow> process_exit code (console_log printed unassigned)
      | (printed, Inr config) \<Rightarrow>
          (let s0 = read_config config (console_log printed unassigned);
               s1 = console_log (banner node_env s0) s0
           in startTest lib (init_state t0 s1)))"

section \<open>What is counted in a run\<close>

text \<open>
  The completion report starts with the line \<open>flag_line\<close>; \<open>reports\<close> counts how often it
  was printed and \<open>logoffs\<close> how often \<^verbatim>\<open>steamClient.logOff()\<close> was called.
\<close>

definition flag_line :: string where
  "flag_line = e_flag @ '' TEST COMPLETED''"

definition reports :: "state \<Rightarrow> nat" where
  "reports s = count_list (console s) flag_line"

definition logoffs :: "state \<Rightarrow> nat" where
  "logoffs s = count_list (calls s) LogOff"

section \<open>Concrete inputs\<close>

text \<open>
  A library environment with the codes the \<^verbatim>\<open>steam-user\<close> package gives the four results,
  a generator that returns a code, a logoff that returns and a \<^verbatim>\<open>SteamID\<close> constructor that
  constructs; a configuration file with the
  three credentials and no \<^verbatim>\<open>test_steam_id\<close>; and the state the module body leaves when it
  runs on them at time 0.
\<close>

definition steam_lib :: library where
  "steam_lib =
     \<lparr>InvalidPassword = 5, TwoFactorCodeMismatch = 88, AccountLoginDeniedNeedTwoFactor = 85,
      RateLimitExceeded = 84, totp_generateAuthCode = (\<lambda>secret. Inr ''R4KQ7''),
      logOff_error = None, SteamID_error = (\<lambda>id. None)\<rparr>"

definition sample_config :: "string \<rightharpoonup> jsval" where
  "sample_config =
     [''steam_username'' \<mapsto> JStr ''prober'', ''steam_password'' \<mapsto> JStr ''hunter2'',
      ''shared_secret'' \<mapsto> JStr ''c2VjcmV0'']"

definition started :: state where
  "started = startup steam_lib (Content (TopObject sample_config)) None 0"

text \<open>
  The run after login at 50 and the coordinator's welcome at 150 (the profile request is
  out, its timer due at 30150), and the same run with SIGINT arriving at 29650.
\<close>

definition handshaken :: state where
  "handshaken =
     run steam_lib
       [(50, LoggedOn ''76561198000000001'' (JStr ''prober'')), (150, ConnectedToGC)] started"

definition interrupted :: state where
  "interrupted = step steam_lib 29650 SIGINT handshaken"

text \<open>
  A step that ends the process with code 1 and leaves the completion routine untouched: the
  flag is still false, no report was printed, \<^verbatim>\<open>logOff\<close> was not called, no exit was
  scheduled, and the stage timers are as before.
\<close>

definition exits_directly :: "state \<Rightarrow> state \<Rightarrow> bool" where
  "exits_directly s s' =
     (exited s' = Some 1 \<and> \<not> testCompleted s' \<and> reports s' = reports s \<and>
      logoffs s' = logoffs s \<and> exitTimer s' = exitTimer s \<and> gcTimeout s' = gcTimeout s \<and>
      requests s' = requests s)"

text \<open>The run in which Steam rejects the login at 40 with \<^verbatim>\<open>InvalidPassword\<close>.\<close>

definition rejected :: state where
  "rejected = step steam_lib 40 (SteamError ''InvalidPassword'' (JNum 5)) started"

text \<open>A profile as the coordinator returns it.\<close>

definition sample_profile :: profile where
  "sample_profile =
     \<lparr>account_id = JNum 1296465619, medals_count = Some 3, commendation = None,
      player_level = JNum 12\<rparr>"

text \<open>
  The run of \<open>handshaken\<close> when the profile arrives at 450, and when it never arrives and
  the request's timer fires at 30150.
\<close>

definition succeeded :: state where
  "succeeded = step steam_lib 450 (ProfileResponse 0 (Some sample_profile)) handshaken"

definition throttled :: state where
  "throttled = step steam_lib 30150 (RequestTimeoutFires 0) handshaken"

text \<open>
  The requirement on the configuration in words: the file holds an object in which
  \<^verbatim>\<open>steam_username\<close>, \<^verbatim>\<open>steam_password\<close> and \<^verbatim>\<open>shared_secret\<close> are present and truthy.
\<close>

definition three_required_present :: "config_file \<Rightarrow> bool" where
  "three_required_present file =
     (case file of
        Content (TopObject obj) \<Rightarrow>
          truthy (get_prop obj ''steam_username'') \<and> truthy (get_prop obj ''steam_password'') \<and>
          truthy (get_prop obj ''shared_secret'')
      | _ \<Rightarrow> False)"
text \<open>The run in which the login succeeds late, 119 seconds after the start.\<close>

definition late_login :: state where
  "late_login =
     step steam_lib 119000 (LoggedOn ''76561198000000001'' (JStr ''prober'')) started"


lemmas emoji_defs =
  e_cross_def e_check_def e_warning_def e_clipboard_def e_rocket_def e_chart_def e_glass_def
  e_gamepad_def e_fire_def e_flag_def e_party_def e_prohibited_def e_wave_def e_stop_def
  e_lock_def e_key_def

section \<open>Properties of the completion routine\<close>

lemma completeTest_done: "testCompleted s \<Longrightarrow> completeTest lib now r s = s"
  by (simp add: completeTest_def)

lemma completeTest_fresh:
  "\<not> testCompleted s \<Longrightarrow>
   completeTest lib now r s =
     s\<lparr>testCompleted := True, testTimeout := None,
       console := console s @ report r (now - testStartTime s) @ conclusion r @
         [case logOff_error lib of None \<Rightarrow> e_wave @ '' Logged off Steam''
          | Some message \<Rightarrow> e_warning @ '' Logout error: '' @ message],
       calls := calls s @ [LogOff],
       exitTimer := Some (now + 1000, r)\<rparr>"
  by (simp add: completeTest_def Let_def clean_logout_def console_log_def call_def
      split: option.splits)

lemma count_report: "count_list (report r d) flag_line = 1"
  by (simp add: report_def flag_line_def emoji_defs)

lemma count_conclusion: "count_list (conclusion r) flag_line = 0"
  by (simp add: conclusion_def flag_line_def emoji_defs)

lemma logout_line_not_flag:
  "(case logOff_error lib of None \<Rightarrow> e_wave @ '' Logged off Steam''
    | Some message \<Rightarrow> e_warning @ '' Logout error: '' @ message) \<noteq> flag_line"
  by (simp add: flag_line_def emoji_defs split: option.splits)

lemma reports_completeTest:
  "reports (completeTest lib now r s) = reports s + (if testCompleted s then 0 else 1)"
  by (cases "testCompleted s")
     (simp_all add: completeTest_done completeTest_fresh reports_def count_report count_conclusion
        logout_line_not_flag)

lemma logoffs_completeTest:
  "logoffs (completeTest lib now r s) = logoffs s + (if testCompleted s then 0 else 1)"
  by (cases "testCompleted s") (simp_all add: completeTest_done completeTest_fresh logoffs_def)

lemma testCompleted_completeTest: "testCompleted (completeTest lib now r s)"
  by (cases "testCompleted s") (simp_all add: completeTest_done completeTest_fresh)

lemma exited_completeTest: "exited (completeTest lib now r s) = exited s"
  by (cases "testCompleted s") (simp_all add: completeTest_done completeTest_fresh)

lemma exitTimer_completeTest:
  "exitTimer (completeTest lib now r s) =
     (if testCompleted s then exitTimer s else Some (now + 1000, r))"
  by (cases "testCompleted s") (simp_all add: completeTest_done completeTest_fresh)

lemma timers_completeTest:
  "gcTimeout (completeTest lib now r s) = gcTimeout s"
  "requests (completeTest lib now r s) = requests s"
  "testTimeout (completeTest lib now r s) = (if testCompleted s then testTimeout s else None)"
  by (cases "testCompleted s"; simp add: completeTest_done completeTest_fresh)+

section \<open>What each handler does to the flag and the counts\<close>

lemma prim_TEST_STEAM_ID: "TEST_STEAM_ID (console_log ls s) = TEST_STEAM_ID s"
  by (simp add: console_log_def)

lemma prim_testCompleted:
  "testCompleted (console_log ls s) = testCompleted s"
  "testCompleted (call c s) = testCompleted s"
  "testCompleted (process_exit code s) = testCompleted s"
  by (simp_all add: console_log_def call_def process_exit_def)

lemma prim_exited:
  "exited (console_log ls s) = exited s"
  "exited (call c s) = exited s"
  "exited (process_exit code s) = Some code"
  by (simp_all add: console_log_def call_def process_exit_def)

lemma prim_exitTimer:
  "exitTimer (console_log ls s) = exitTimer s"
  "exitTimer (call c s) = exitTimer s"
  "exitTimer (process_exit code s) = exitTimer s"
  by (simp_all add: console_log_def call_def process_exit_def)

lemma prim_reports:
  "reports (console_log ls s) = reports s + count_list ls flag_line"
  "reports (call c s) = reports s"
  "reports (process_exit code s) = reports s"
  "reports (s\<lparr>gcConnectStartTime := g\<rparr>) = reports s"
  "reports (s\<lparr>requests := q\<rparr>) = reports s"
  "reports (s\<lparr>testTimeout := t\<rparr>) = reports s"
  "reports (s\<lparr>gcTimeout := t\<rparr>) = reports s"
  by (simp_all add: reports_def console_log_def call_def process_exit_def)

lemma prim_logoffs:
  "logoffs (console_log ls s) = logoffs s"
  "logoffs (call c s) = logoffs s + (if c = LogOff then 1 else 0)"
  "logoffs (process_exit code s) = logoffs s"
  "logoffs (s\<lparr>gcConnectStartTime := g\<rparr>) = logoffs s"
  "logoffs (s\<lparr>requests := q\<rparr>) = logoffs s"
  "logoffs (s\<lparr>testTimeout := t\<rparr>) = logoffs s"
  "logoffs (s\<lparr>gcTimeout := t\<rparr>) = logoffs s"
  by (simp_all add: logoffs_def console_log_def call_def process_exit_def)

lemmas prims = prim_testCompleted prim_exited prim_exitTimer prim_reports prim_logoffs
  reports_completeTest logoffs_completeTest testCompleted_completeTest exited_completeTest
  exitTimer_completeTest

lemma plain_on_error:
  "testCompleted (on_error lib m e s) = testCompleted s"
  "reports (on_error lib m e s) = reports s"
  "logoffs (on_error lib m e s) = logoffs s"
  by (simp_all add: on_error_def prims diagnosis_def flag_line_def emoji_defs)

lemma plain_on_loggedOn:
  "testCompleted (on_loggedOn now i n s) = testCompleted s"
  "reports (on_loggedOn now i n s) = reports s"
  "logoffs (on_loggedOn now i n s) = logoffs s"
  by (simp_all add: on_loggedOn_def Let_def prims flag_line_def emoji_defs)

lemma plain_on_disconnected:
  "testCompleted (on_disconnected e m s) = testCompleted s"
  "reports (on_disconnected e m s) = reports s"
  "logoffs (on_disconnected e m s) = logoffs s"
  by (simp_all add: on_disconnected_def Let_def prims flag_line_def emoji_defs)

lemma plain_on_connectedToGC:
  "testCompleted (on_connectedToGC lib now s) = testCompleted s"
  "reports (on_connectedToGC lib now s) = reports s"
  "logoffs (on_connectedToGC lib now s) = logoffs s"
  by (cases "SteamID_error lib (TEST_STEAM_ID s)";
      simp add: on_connectedToGC_def testProfileRequest_def uncaught_exception_def Let_def prims
        prim_TEST_STEAM_ID flag_line_def emoji_defs)+

lemma plain_on_disconnectedFromGC:
  "testCompleted (on_disconnectedFromGC r s) = testCompleted s"
  "reports (on_disconnectedFromGC r s) = reports s"
  "logoffs (on_disconnectedFromGC r s) = logoffs s"
  by (simp_all add: on_disconnectedFromGC_def Let_def prims flag_line_def emoji_defs)

lemma plain_testTimeout_expired:
  "testCompleted (testTimeout_expired s) = testCompleted s"
  "reports (testTimeout_expired s) = reports s"
  "logoffs (testTimeout_expired s) = logoffs s"
  by (simp_all add: testTimeout_expired_def Let_def prims flag_line_def emoji_defs)


lemma compl_requestTimeout_expired:
  "testCompleted (requestTimeout_expired lib now s)"
  "reports (requestTimeout_expired lib now s) = reports s + (if testCompleted s then 0 else 1)"
  "logoffs (requestTimeout_expired lib now s) = logoffs s + (if testCompleted s then 0 else 1)"
  by (simp_all add: requestTimeout_expired_def prims flag_line_def emoji_defs)

lemma compl_on_profile:
  "testCompleted (on_profile lib now k payload s)"
  "reports (on_profile lib now k payload s) = reports s + (if testCompleted s then 0 else 1)"
  "logoffs (on_profile lib now k payload s) = logoffs s + (if testCompleted s then 0 else 1)"
  by (cases payload;
      simp add: on_profile_def clearTimeout_request_def Let_def prims flag_line_def emoji_defs)+

lemma compl_gcTimeout_expired:
  "testCompleted s \<Longrightarrow> testCompleted (gcTimeout_expired lib now s)"
  "reports (gcTimeout_expired lib now s) =
     reports s + (if testCompleted (gcTimeout_expired lib now s) \<and> \<not> testCompleted s then 1 else 0)"
  "logoffs (gcTimeout_expired lib now s) =
     logoffs s + (if testCompleted (gcTimeout_expired lib now s) \<and> \<not> testCompleted s then 1 else 0)"
  by (simp_all add: gcTimeout_expired_def prims flag_line_def emoji_defs)

lemma compl_on_SIGINT:
  "testCompleted (on_SIGINT lib now s)"
  "reports (on_SIGINT lib now s) = reports s + (if testCompleted s then 0 else 1)"
  "logoffs (on_SIGINT lib now s) = logoffs s + (if testCompleted s then 0 else 1)"
  by (simp_all add: on_SIGINT_def prims flag_line_def emoji_defs nl_def)

lemma compl_on_SIGTERM:
  "testCompleted (on_SIGTERM lib now s)"
  "reports (on_SIGTERM lib now s) = reports s + (if testCompleted s then 0 else 1)"
  "logoffs (on_SIGTERM lib now s) = logoffs s + (if testCompleted s then 0 else 1)"
  by (simp_all add: on_SIGTERM_def prims flag_line_def emoji_defs nl_def)

lemmas handler_facts = plain_on_error plain_on_loggedOn plain_on_disconnected
  plain_on_connectedToGC plain_on_disconnectedFromGC plain_testTimeout_expired
  compl_requestTimeout_expired compl_on_profile compl_gcTimeout_expired compl_on_SIGINT
  compl_on_SIGTERM

lemma testCompleted_step: "testCompleted s \<Longrightarrow> testCompleted (step lib now ev s)"
  by (cases ev)
     (simp_all add: step_def handler_facts prim_testCompleted clearTimeout_request_def
        split: option.splits prod.splits)

lemma reports_step:
  "reports (step lib now ev s) =
     reports s + (if testCompleted (step lib now ev s) \<and> \<not> testCompleted s then 1 else 0)"
  by (cases ev)
     (simp_all add: step_def handler_facts prims clearTimeout_request_def
        split: option.splits prod.splits)

lemma logoffs_step:
  "logoffs (step lib now ev s) =
     logoffs s + (if testCompleted (step lib now ev s) \<and> \<not> testCompleted s then 1 else 0)"
  by (cases ev)
     (simp_all add: step_def handler_facts prims clearTimeout_request_def
        split: option.splits prod.splits)

lemma testCompleted_run: "testCompleted s \<Longrightarrow> testCompleted (run lib evs s)"
proof (induction evs arbitrary: s)
  case Nil
  then show ?case by simp
next
  case (Cons e evs)
  obtain now ev where e: "e = (now, ev)" by (cases e)
  have "testCompleted (step lib now ev s)"
    using Cons.prems by (rule testCompleted_step)
  then have "testCompleted (run lib evs (step lib now ev s))"
    by (rule Cons.IH)
  then show ?case by (simp add: e)
qed

lemma counted_run:
  fixes f :: "state \<Rightarrow> nat"
  assumes st: "\<And>now ev s. f (step lib now ev s) =
     f s + (if testCompleted (step lib now ev s) \<and> \<not> testCompleted s then 1 else 0)"
  shows "f (run lib evs s) =
     f s + (if testCompleted (run lib evs s) \<and> \<not> testCompleted s then 1 else 0)"
proof (induction evs arbitrary: s)
  case Nil
  show ?case by simp
next
  case (Cons e evs)
  obtain now ev where e: "e = (now, ev)" by (cases e)
  let ?s' = "step lib now ev s"
  have r: "run lib (e # evs) s = run lib evs ?s'" by (simp add: e)
  have ih: "f (run lib evs ?s') =
     f ?s' + (if testCompleted (run lib evs ?s') \<and> \<not> testCompleted ?s' then 1 else 0)"
    by (rule Cons.IH)
  show ?case
  proof (cases "testCompleted s")
    case True
    then have c1: "testCompleted ?s'" by (rule testCompleted_step)
    have "f ?s' = f s" using st [of now ev s] True by simp
    then show ?thesis using ih c1 True by (simp add: r)
  next
    case False
    show ?thesis
    proof (cases "testCompleted ?s'")
      case True
      then have c2: "testCompleted (run lib evs ?s')" by (rule testCompleted_run)
      have "f ?s' = f s + 1" using st [of now ev s] True False by simp
      then show ?thesis using ih c2 True False by (simp add: r)
    next
      case c3: False
      have "f ?s' = f s" using st [of now ev s] c3 by simp
      then show ?thesis using ih c3 False by (simp add: r)
    qed
  qed
qed

lemma reports_run:
  "reports (run lib evs s) =
     reports s + (if testCompleted (run lib evs s) \<and> \<not> testCompleted s then 1 else 0)"
  by (rule counted_run) (rule reports_step)

lemma logoffs_run:
  "logoffs (run lib evs s) =
     logoffs s + (if testCompleted (run lib evs s) \<and> \<not> testCompleted s then 1 else 0)"
  by (rule counted_run) (rule logoffs_step)

section \<open>The state the module body leaves\<close>

lemma loadConfig_no_flag: "count_list (fst (loadConfig cf)) flag_line = 0"
proof (cases cf)
  case NoFile
  then show ?thesis
    by (simp add: loadConfig_def flag_line_def emoji_defs config_template_def)
next
  case (Unreadable m)
  then show ?thesis by (simp add: loadConfig_def flag_line_def emoji_defs)
next
  case (Content top)
  show ?thesis
  proof (cases top)
    case (TopObject obj)
    show ?thesis
      by (cases "first_missing obj required")
         (simp_all add: loadConfig_def Content TopObject flag_line_def emoji_defs)
  next
    case TopNull
    show ?thesis by (simp add: loadConfig_def Content TopNull flag_line_def emoji_defs)
  next
    case TopOther
    show ?thesis by (simp add: loadConfig_def Content TopOther flag_line_def emoji_defs)
  qed
qed

lemma banner_no_flag: "count_list (banner node_env s) flag_line = 0"
  by (simp add: banner_def flag_line_def emoji_defs)

lemma plain_read_config:
  "testCompleted (read_config config s) = testCompleted s"
  "reports (read_config config s) = reports s"
  "logoffs (read_config config s) = logoffs s"
  by (simp_all add: read_config_def reports_def logoffs_def)

lemma plain_init_state:
  "\<not> testCompleted (init_state t0 s)"
  "reports (init_state t0 s) = reports s"
  "logoffs (init_state t0 s) = logoffs s"
  by (simp_all add: init_state_def reports_def logoffs_def)

lemma plain_startTest:
  "testCompleted (startTest lib s) = testCompleted s"
  "reports (startTest lib s) = reports s"
  "logoffs (startTest lib s) = logoffs s"
  by (cases "totp_generateAuthCode lib (SHARED_SECRET s)";
      simp add: startTest_def Let_def prims flag_line_def emoji_defs)+

lemma unassigned_fresh:
  "\<not> testCompleted unassigned" "reports unassigned = 0" "logoffs unassigned = 0"
  by (simp_all add: unassigned_def reports_def logoffs_def)

lemma startup_fresh:
  "\<not> testCompleted (startup lib cf node_env t0)"
  "reports (startup lib cf node_env t0) = 0"
  "logoffs (startup lib cf node_env t0) = 0"
proof -
  obtain printed res where lc: "loadConfig cf = (printed, res)"
    by (cases "loadConfig cf")
  have np: "count_list printed flag_line = 0"
    using loadConfig_no_flag [of cf] by (simp add: lc)
  show "\<not> testCompleted (startup lib cf node_env t0)"
    by (cases res)
       (simp_all add: startup_def lc Let_def plain_startTest plain_init_state plain_read_config
          prims unassigned_fresh)
  show "reports (startup lib cf node_env t0) = 0"
    by (cases res)
       (simp_all add: startup_def lc Let_def plain_startTest plain_init_state plain_read_config
          prims unassigned_fresh np banner_no_flag)
  show "logoffs (startup lib cf node_env t0) = 0"
    by (cases res)
       (simp_all add: startup_def lc Let_def plain_startTest plain_init_state plain_read_config
          prims unassigned_fresh)
qed

section \<open>Exactly-once finalization\<close>

lemma later_calls_noop:
  "testCompleted s \<Longrightarrow> fold (\<lambda>(now', r'). completeTest lib now' r') later s = s"
  by (induction later) (auto simp: completeTest_done)


text \<open>
  Claim C1. Take any state in which the run is not finalized and any call
  \<^verbatim>\<open>completeTest(result)\<close>, whichever trigger makes it. That call finalizes: it sets
  \<^verbatim>\<open>testCompleted\<close>, prints the completion report once, calls \<^verbatim>\<open>logOff\<close> once, clears the
  timer of 5 minutes and schedules the exit that carries \<open>result\<close>. Every later call of
  \<^verbatim>\<open>completeTest\<close>, with any result at any time and in any number, returns the state
  unchanged. And whatever events follow (library events, timers, signals, in any order), the
  report stays printed exactly once and \<^verbatim>\<open>logOff\<close> called exactly once.
\<close>

theorem exactly_once_finalization:
  assumes "\<not> testCompleted s"
  shows "testCompleted (completeTest lib now r s) \<and>
         reports (completeTest lib now r s) = reports s + 1 \<and>
         logoffs (completeTest lib now r s) = logoffs s + 1 \<and>
         testTimeout (completeTest lib now r s) = None \<and>
         exitTimer (completeTest lib now r s) = Some (now + 1000, r) \<and>
         fold (\<lambda>(now', r'). completeTest lib now' r') later (completeTest lib now r s) =
           completeTest lib now r s \<and>
         reports (run lib evs (completeTest lib now r s)) = reports s + 1 \<and>
         logoffs (run lib evs (completeTest lib now r s)) = logoffs s + 1"
proof -
  let ?s' = "completeTest lib now r s"
  have fin: "testCompleted ?s'" by (rule testCompleted_completeTest)
  have rep: "reports ?s' = reports s + 1"
    using assms by (simp add: reports_completeTest)
  have lo: "logoffs ?s' = logoffs s + 1"
    using assms by (simp add: logoffs_completeTest)
  have tt: "testTimeout ?s' = None"
    using assms by (simp add: timers_completeTest)
  have et: "exitTimer ?s' = Some (now + 1000, r)"
    using assms by (simp add: exitTimer_completeTest)
  have later: "fold (\<lambda>(now', r'). completeTest lib now' r') later ?s' = ?s'"
    using fin by (rule later_calls_noop)
  have rr: "reports (run lib evs ?s') = reports s + 1"
    using reports_run [of lib evs ?s'] fin rep by simp
  have lr: "logoffs (run lib evs ?s') = logoffs s + 1"
    using logoffs_run [of lib evs ?s'] fin lo by simp
  show ?thesis using fin rep lo tt et later rr lr by simp
qed

theorem exactly_once_finalization_witness:
  "\<not> testCompleted started \<and>
   testCompleted (completeTest steam_lib 5000 ''INTERRUPTED'' started) \<and>
   reports (completeTest steam_lib 5000 ''INTERRUPTED'' started) = 1 \<and>
   fold (\<lambda>(now', r'). completeTest steam_lib now' r') [(5001, ''TIMEOUT''), (5002, ''SUCCESS'')]
     (completeTest steam_lib 5000 ''INTERRUPTED'' started) =
     completeTest steam_lib 5000 ''INTERRUPTED'' started \<and>
   reports (run steam_lib [(5001, SIGTERM), (5002, GcTimeoutFires)]
     (completeTest steam_lib 5000 ''INTERRUPTED'' started)) = 1"
proof -
  have fresh: "\<not> testCompleted started"
    by (simp add: started_def startup_fresh)
  have zero: "reports started = 0"
    by (simp add: started_def startup_fresh)
  show ?thesis
    using exactly_once_finalization [OF fresh, of steam_lib 5000 "''INTERRUPTED''"
        "[(5001, ''TIMEOUT''), (5002, ''SUCCESS'')]" "[(5001, SIGTERM), (5002, GcTimeoutFires)]"]
      fresh zero
    by simp
qed

section \<open>What the handlers do to the timers and variables\<close>

lemma started_fields:
  "testStartTime started = 0" "gcConnectStartTime started = None" "\<not> testCompleted started"
  "testTimeout started = Some 300000" "gcTimeout started = Some 120000" "requests started = []"
  "exitTimer started = None" "exited started = None"
  "TEST_STEAM_ID started = JStr ''76561199556731347''"
  "calls started = [LogOn (JStr ''prober'') (JStr ''hunter2'') ''R4KQ7'']"
  by (simp_all add: started_def startup_def loadConfig_def required_def get_prop_def
      sample_config_def steam_lib_def read_config_def init_state_def startTest_def
      console_log_def call_def unassigned_def Let_def)

lemma fields_on_loggedOn:
  "gcConnectStartTime (on_loggedOn now i n s) = Some now"
  "testTimeout (on_loggedOn now i n s) = testTimeout s"
  "gcTimeout (on_loggedOn now i n s) = gcTimeout s"
  "requests (on_loggedOn now i n s) = requests s"
  "exitTimer (on_loggedOn now i n s) = exitTimer s"
  "exited (on_loggedOn now i n s) = exited s"
  "testStartTime (on_loggedOn now i n s) = testStartTime s"
  by (simp_all add: on_loggedOn_def Let_def console_log_def call_def)

lemma fields_on_connectedToGC:
  "gcConnectStartTime (on_connectedToGC lib now s) = gcConnectStartTime s"
  "testTimeout (on_connectedToGC lib now s) = testTimeout s"
  "gcTimeout (on_connectedToGC lib now s) = gcTimeout s"
  "requests (on_connectedToGC lib now s) =
     (case SteamID_error lib (TEST_STEAM_ID s) of
        Some message \<Rightarrow> requests s
      | None \<Rightarrow> requests s @ [(now, Some (now + 30000))])"
  "exitTimer (on_connectedToGC lib now s) = exitTimer s"
  "exited (on_connectedToGC lib now s) =
     (case SteamID_error lib (TEST_STEAM_ID s) of Some message \<Rightarrow> Some 1 | None \<Rightarrow> exited s)"
  "testStartTime (on_connectedToGC lib now s) = testStartTime s"
  by (cases "SteamID_error lib (TEST_STEAM_ID s)";
      simp add: on_connectedToGC_def testProfileRequest_def uncaught_exception_def Let_def
        console_log_def call_def process_exit_def)+

lemma fields_console_log:
  "gcConnectStartTime (console_log ls s) = gcConnectStartTime s"
  "testTimeout (console_log ls s) = testTimeout s"
  "gcTimeout (console_log ls s) = gcTimeout s"
  "requests (console_log ls s) = requests s"
  "testStartTime (console_log ls s) = testStartTime s"
  "calls (console_log ls s) = calls s"
  "console (console_log ls s) = console s @ ls"
  by (simp_all add: console_log_def)

lemma fields_process_exit:
  "gcConnectStartTime (process_exit c s) = gcConnectStartTime s"
  "testTimeout (process_exit c s) = testTimeout s"
  "gcTimeout (process_exit c s) = gcTimeout s"
  "requests (process_exit c s) = requests s"
  "testStartTime (process_exit c s) = testStartTime s"
  "calls (process_exit c s) = calls s"
  "console (process_exit c s) = console s"
  by (simp_all add: process_exit_def)

lemma fields_completeTest:
  "gcConnectStartTime (completeTest lib now r s) = gcConnectStartTime s"
  "testStartTime (completeTest lib now r s) = testStartTime s"
  by (cases "testCompleted s"; simp add: completeTest_done completeTest_fresh)+

section \<open>The guard of the timer of 2 minutes\<close>

text \<open>
  Claim C10. When the function of the timer of 2 minutes runs while \<^verbatim>\<open>gcConnectStartTime\<close> is
  still \<^verbatim>\<open>null\<close>, or while \<^verbatim>\<open>testCompleted\<close> is true, it returns the state as it found it:
  nothing is printed, \<^verbatim>\<open>completeTest\<close> is not called, no variable changes. The whole firing
  changes one thing only: the timer, having fired, is no longer pending.
\<close>

theorem gc_timer_guarded:
  assumes "testCompleted s \<or> gcConnectStartTime s = None"
  shows "gcTimeout_expired lib now s = s \<and>
         step lib now GcTimeoutFires s =
           (if exited s = None \<and> (\<exists>due. gcTimeout s = Some due \<and> due \<le> now)
            then s\<lparr>gcTimeout := None\<rparr> else s)"
proof -
  have cb: "\<And>s'. testCompleted s' \<or> gcConnectStartTime s' = None \<Longrightarrow>
      gcTimeout_expired lib now s' = s'"
    by (auto simp: gcTimeout_expired_def)
  have a: "gcTimeout_expired lib now s = s" using assms by (rule cb)
  have b: "gcTimeout_expired lib now (s\<lparr>gcTimeout := None\<rparr>) = s\<lparr>gcTimeout := None\<rparr>"
    using assms by (intro cb) simp
  show ?thesis
  proof (cases "gcTimeout s")
    case None
    then show ?thesis using a by (simp add: step_def)
  next
    case (Some due)
    then show ?thesis using a b by (simp add: step_def)
  qed
qed

theorem gc_timer_guarded_witness:
  "gcConnectStartTime started = None \<and>
   gcTimeout_expired steam_lib 120000 started = started \<and>
   step steam_lib 120000 GcTimeoutFires started = started\<lparr>gcTimeout := None\<rparr>"
proof -
  have n: "gcConnectStartTime started = None" by (rule started_fields)
  show ?thesis
    using gc_timer_guarded [of started steam_lib 120000] n
    by (simp add: started_fields)
qed

section \<open>The timers after finalization\<close>

lemma steam_lib_SteamID: "SteamID_error steam_lib v = None"
  by (simp add: steam_lib_def)

lemma handshaken_fields:
  "testStartTime handshaken = 0" "gcConnectStartTime handshaken = Some 50"
  "\<not> testCompleted handshaken" "testTimeout handshaken = Some 300000"
  "gcTimeout handshaken = Some 120000" "requests handshaken = [(150, Some 30150)]"
  "exitTimer handshaken = None" "exited handshaken = None"
  by (simp_all add: handshaken_def step_def started_fields fields_on_loggedOn
      fields_on_connectedToGC plain_on_loggedOn plain_on_connectedToGC steam_lib_SteamID)

lemma fields_on_SIGINT:
  "gcTimeout (on_SIGINT lib now s) = gcTimeout s"
  "requests (on_SIGINT lib now s) = requests s"
  "testTimeout (on_SIGINT lib now s) = (if testCompleted s then testTimeout s else None)"
  "exitTimer (on_SIGINT lib now s) =
     (if testCompleted s then exitTimer s else Some (now + 1000, ''INTERRUPTED''))"
  "exited (on_SIGINT lib now s) = exited s"
  by (simp_all add: on_SIGINT_def timers_completeTest exitTimer_completeTest exited_completeTest
      fields_console_log prims)

lemma interrupted_fields:
  "testCompleted interrupted" "testTimeout interrupted = None"
  "gcTimeout interrupted = Some 120000" "requests interrupted = [(150, Some 30150)]"
  "exitTimer interrupted = Some (30650, ''INTERRUPTED'')" "exited interrupted = None"
  by (simp_all add: interrupted_def step_def handshaken_fields fields_on_SIGINT compl_on_SIGINT)

lemma console_completeTest_done:
  "testCompleted s \<Longrightarrow> console (completeTest lib now r s) = console s"
  by (simp add: completeTest_done)

text \<open>
  Claim C3 says that the first finalization cancels every armed timer: the request's timer,
  the timer of 2 minutes and the timer of 5 minutes. It does not: after SIGINT at 29650,
  with the profile request out, the run is finalized, the timer of 5 minutes is cleared, and
  the timer of 2 minutes and the request's timer are still pending; the process has not
  exited, and when the request's timer fires at 30150 its function prints its five lines.
\<close>

theorem stale_timers_counterexample:
  "testCompleted interrupted \<and>
   testTimeout interrupted = None \<and>
   gcTimeout interrupted = Some 120000 \<and>
   requests interrupted = [(150, Some 30150)] \<and>
   exited interrupted = None \<and>
   length (console (step steam_lib 30150 (RequestTimeoutFires 0) interrupted)) =
     length (console interrupted) + 5"
proof -
  have "length (console (step steam_lib 30150 (RequestTimeoutFires 0) interrupted)) =
     length (console interrupted) + 5"
    by (simp add: step_def interrupted_fields requestTimeout_expired_def clearTimeout_request_def
        completeTest_done console_log_def)
  then show ?thesis by (simp add: interrupted_fields)
qed

text \<open>
  Claim C3 as amended. The first finalization cancels the timer of 5 minutes
  (\<^verbatim>\<open>clearTimeout(testTimeout)\<close>) and no other timer: the timer of 2 minutes and the timers
  of the profile requests are as they were before the call.
\<close>

theorem completeTest_clears_global_timer_only:
  assumes "\<not> testCompleted s"
  shows "testTimeout (completeTest lib now r s) = None \<and>
         gcTimeout (completeTest lib now r s) = gcTimeout s \<and>
         requests (completeTest lib now r s) = requests s"
  using assms by (simp add: timers_completeTest)

theorem completeTest_clears_global_timer_only_witness:
  "\<not> testCompleted handshaken \<and>
   testTimeout handshaken = Some 300000 \<and>
   testTimeout (completeTest steam_lib 29650 ''INTERRUPTED'' handshaken) = None \<and>
   gcTimeout (completeTest steam_lib 29650 ''INTERRUPTED'' handshaken) = Some 120000 \<and>
   requests (completeTest steam_lib 29650 ''INTERRUPTED'' handshaken) = [(150, Some 30150)]"
proof -
  have fresh: "\<not> testCompleted handshaken" by (rule handshaken_fields)
  show ?thesis
    using completeTest_clears_global_timer_only [OF fresh, of steam_lib 29650 "''INTERRUPTED''"]
    by (simp add: handshaken_fields)
qed

section \<open>The terminal signals of the collaborators\<close>

lemma fields_on_error:
  "exited (on_error lib m e s) = Some 1"
  "exitTimer (on_error lib m e s) = exitTimer s"
  "testTimeout (on_error lib m e s) = testTimeout s"
  "gcTimeout (on_error lib m e s) = gcTimeout s"
  "requests (on_error lib m e s) = requests s"
  by (simp_all add: on_error_def console_log_def process_exit_def)

lemma fields_on_disconnected:
  "exited (on_disconnected e m s) = (if testCompleted s then exited s else Some 1)"
  "exitTimer (on_disconnected e m s) = exitTimer s"
  "testTimeout (on_disconnected e m s) = testTimeout s"
  "gcTimeout (on_disconnected e m s) = gcTimeout s"
  "requests (on_disconnected e m s) = requests s"
  by (simp_all add: on_disconnected_def Let_def console_log_def process_exit_def)

lemma fields_on_disconnectedFromGC:
  "exited (on_disconnectedFromGC r s) = (if testCompleted s then exited s else Some 1)"
  "exitTimer (on_disconnectedFromGC r s) = exitTimer s"
  "testTimeout (on_disconnectedFromGC r s) = testTimeout s"
  "gcTimeout (on_disconnectedFromGC r s) = gcTimeout s"
  "requests (on_disconnectedFromGC r s) = requests s"
  by (simp_all add: on_disconnectedFromGC_def Let_def console_log_def process_exit_def)

lemma fields_testTimeout_expired:
  "exited (testTimeout_expired s) = (if testCompleted s then exited s else Some 1)"
  "exitTimer (testTimeout_expired s) = exitTimer s"
  "testTimeout (testTimeout_expired s) = testTimeout s"
  "gcTimeout (testTimeout_expired s) = gcTimeout s"
  "requests (testTimeout_expired s) = requests s"
  by (simp_all add: testTimeout_expired_def console_log_def process_exit_def)

text \<open>
  Claim C2 says that every terminal signal of a collaborator is handed to \<^verbatim>\<open>completeTest\<close>.
  \<^verbatim>\<open>completeTest\<close> always leaves \<^verbatim>\<open>testCompleted\<close> true (lemma
  \<open>testCompleted_completeTest\<close>), prints the report and schedules the exit. When Steam
  rejects the login, the error handler ends the process itself: the exit code is 1 at once,
  the flag is still false, there is no report, no logoff and no scheduled exit, and the timer
  of 5 minutes was not cleared.
\<close>

theorem terminal_signal_counterexample:
  "exited rejected = Some 1 \<and> \<not> testCompleted rejected \<and> reports rejected = 0 \<and>
   logoffs rejected = 0 \<and> exitTimer rejected = None \<and> testTimeout rejected = Some 300000"
  by (simp add: rejected_def step_def started_fields fields_on_error plain_on_error
      startup_fresh [of steam_lib "Content (TopObject sample_config)" None 0, folded started_def])

text \<open>
  Claim C2 as amended. While the run is not finalized, each terminal signal of a
  collaborator (an error of the Steam client, its disconnection, the disconnection of the
  coordinator, the expiry of the timer of 5 minutes) is handled by its own handler, which
  ends the process at once with exit code 1 and does not call \<^verbatim>\<open>completeTest\<close>: the flag
  stays false, no completion report is printed, \<^verbatim>\<open>logOff\<close> is not called, no exit is
  scheduled and no stage timer is touched.
\<close>

theorem terminal_signals_exit_directly:
  assumes "exited s = None" and "\<not> testCompleted s"
  shows "exits_directly s (step lib now (SteamError message eresult) s) \<and>
         exits_directly s (step lib now (Disconnected eresult' msg) s) \<and>
         exits_directly s (step lib now (DisconnectedFromGC reason) s) \<and>
         (testTimeout s = Some due \<and> due \<le> now \<longrightarrow>
            exits_directly s (step lib now TestTimeoutFires s))"
proof -
  have a: "exits_directly s (step lib now (SteamError message eresult) s)"
    using assms by (simp add: exits_directly_def step_def fields_on_error plain_on_error)
  have b: "exits_directly s (step lib now (Disconnected eresult' msg) s)"
    using assms
    by (simp add: exits_directly_def step_def fields_on_disconnected plain_on_disconnected)
  have c: "exits_directly s (step lib now (DisconnectedFromGC reason) s)"
    using assms
    by (simp add: exits_directly_def step_def fields_on_disconnectedFromGC
        plain_on_disconnectedFromGC)
  have d: "testTimeout s = Some due \<and> due \<le> now \<longrightarrow>
      exits_directly s (step lib now TestTimeoutFires s)"
    using assms
    by (simp add: exits_directly_def step_def fields_testTimeout_expired
        plain_testTimeout_expired prim_reports prim_logoffs)
  show ?thesis using a b c d by simp
qed

theorem terminal_signals_exit_directly_witness:
  "exited handshaken = None \<and> \<not> testCompleted handshaken \<and>
   testTimeout handshaken = Some 300000 \<and>
   exits_directly handshaken
     (step steam_lib 300000 (SteamError ''LoggedInElsewhere'' (JNum 6)) handshaken) \<and>
   exits_directly handshaken
     (step steam_lib 300000 (Disconnected (JNum 3) (JStr ''NoConnection'')) handshaken) \<and>
   exits_directly handshaken (step steam_lib 300000 (DisconnectedFromGC (JNum 2)) handshaken) \<and>
   exits_directly handshaken (step steam_lib 300000 TestTimeoutFires handshaken)"
proof -
  have e: "exited handshaken = None" and f: "\<not> testCompleted handshaken"
    and t: "testTimeout handshaken = Some 300000"
    by (rule handshaken_fields)+
  show ?thesis
    using terminal_signals_exit_directly [OF e f, of steam_lib 300000 "''LoggedInElsewhere''"
        "JNum 6" "JNum 3" "JStr ''NoConnection''" "JNum 2" 300000] e f t
    by simp
qed

section \<open>The diagnosis of a Steam error\<close>

text \<open>
  Claim C5 says that a cause other than invalid credentials and rate limiting gets the
  catch-all diagnosis with the raw code. The two-factor codes do not: with the codes of the
  \<^verbatim>\<open>steam-user\<close> package, \<^verbatim>\<open>TwoFactorCodeMismatch\<close> (88) is neither \<^verbatim>\<open>InvalidPassword\<close> nor
  \<^verbatim>\<open>RateLimitExceeded\<close>, and its diagnosis is the one of a 2FA mismatch, without the code.
\<close>

theorem diagnosis_two_factor_counterexample:
  "JNum 88 \<noteq> JNum (InvalidPassword steam_lib) \<and>
   JNum 88 \<noteq> JNum (RateLimitExceeded steam_lib) \<and>
   diagnosis steam_lib (JNum 88) = ''   - Diagnosis: 2FA code mismatch'' \<and>
   diagnosis steam_lib (JNum 88) \<noteq> ''   - Diagnosis: Unknown error ('' @ js_string (JNum 88) @ '')''"
  by (simp add: diagnosis_def steam_lib_def)

text \<open>
  Claim C5 as amended. The error handler prints a diagnosis that depends on the cause
  alone (\<^verbatim>\<open>err.eresult\<close>): invalid credentials for \<^verbatim>\<open>InvalidPassword\<close>, a 2FA mismatch for
  \<^verbatim>\<open>TwoFactorCodeMismatch\<close>, 2FA required for \<^verbatim>\<open>AccountLoginDeniedNeedTwoFactor\<close>, a rate
  limit for \<^verbatim>\<open>RateLimitExceeded\<close>, and for every other cause the catch-all with the raw
  code in it; then the process ends with code 1. The four codes are those of the library,
  taken to be distinct.
\<close>

theorem error_diagnosis:
  assumes "distinct [InvalidPassword lib, TwoFactorCodeMismatch lib,
                     AccountLoginDeniedNeedTwoFactor lib, RateLimitExceeded lib]"
  shows "diagnosis lib (JNum (InvalidPassword lib)) = ''   - Diagnosis: Invalid credentials'' \<and>
         diagnosis lib (JNum (TwoFactorCodeMismatch lib)) = ''   - Diagnosis: 2FA code mismatch'' \<and>
         diagnosis lib (JNum (AccountLoginDeniedNeedTwoFactor lib)) =
           ''   - Diagnosis: 2FA required but not provided correctly'' \<and>
         diagnosis lib (JNum (RateLimitExceeded lib)) = ''   - Diagnosis: Login rate limited'' \<and>
         (eresult \<noteq> JNum (InvalidPassword lib) \<and> eresult \<noteq> JNum (TwoFactorCodeMismatch lib) \<and>
          eresult \<noteq> JNum (AccountLoginDeniedNeedTwoFactor lib) \<and>
          eresult \<noteq> JNum (RateLimitExceeded lib) \<longrightarrow>
            diagnosis lib eresult = ''   - Diagnosis: Unknown error ('' @ js_string eresult @ '')'') \<and>
         console (on_error lib message eresult s) =
           console s @
             [e_cross @ '' Steam Error: '' @ message, e_glass @ '' Error Details:'',
              ''   - EResult: '' @ js_string eresult, diagnosis lib eresult] \<and>
         exited (on_error lib message eresult s) = Some 1"
proof -
  have a: "diagnosis lib (JNum (InvalidPassword lib)) = ''   - Diagnosis: Invalid credentials''"
    by (simp add: diagnosis_def)
  have b: "diagnosis lib (JNum (TwoFactorCodeMismatch lib)) = ''   - Diagnosis: 2FA code mismatch''"
    using assms by (simp add: diagnosis_def)
  have c: "diagnosis lib (JNum (AccountLoginDeniedNeedTwoFactor lib)) =
           ''   - Diagnosis: 2FA required but not provided correctly''"
    using assms by (simp add: diagnosis_def)
  have d: "diagnosis lib (JNum (RateLimitExceeded lib)) = ''   - Diagnosis: Login rate limited''"
    using assms by (simp add: diagnosis_def)
  have e: "eresult \<noteq> JNum (InvalidPassword lib) \<and> eresult \<noteq> JNum (TwoFactorCodeMismatch lib) \<and>
          eresult \<noteq> JNum (AccountLoginDeniedNeedTwoFactor lib) \<and>
          eresult \<noteq> JNum (RateLimitExceeded lib) \<longrightarrow>
            diagnosis lib eresult = ''   - Diagnosis: Unknown error ('' @ js_string eresult @ '')''"
    by (simp add: diagnosis_def)
  have f: "console (on_error lib message eresult s) =
           console s @
             [e_cross @ '' Steam Error: '' @ message, e_glass @ '' Error Details:'',
              ''   - EResult: '' @ js_string eresult, diagnosis lib eresult]"
    by (simp add: on_error_def fields_process_exit fields_console_log)
  have g: "exited (on_error lib message eresult s) = Some 1"
    by (rule fields_on_error)
  show ?thesis using a b c d e f g by blast
qed

theorem error_diagnosis_witness:
  "distinct [InvalidPassword steam_lib, TwoFactorCodeMismatch steam_lib,
             AccountLoginDeniedNeedTwoFactor steam_lib, RateLimitExceeded steam_lib] \<and>
   diagnosis steam_lib (JNum 5) = ''   - Diagnosis: Invalid credentials'' \<and>
   diagnosis steam_lib (JNum 84) = ''   - Diagnosis: Login rate limited'' \<and>
   diagnosis steam_lib (JNum 2) = ''   - Diagnosis: Unknown error (2)'' \<and>
   diagnosis steam_lib JUndefined = ''   - Diagnosis: Unknown error (undefined)''"
proof -
  have dist: "distinct [InvalidPassword steam_lib, TwoFactorCodeMismatch steam_lib,
             AccountLoginDeniedNeedTwoFactor steam_lib, RateLimitExceeded steam_lib]"
    by (simp add: steam_lib_def)
  have codes: "InvalidPassword steam_lib = 5" "RateLimitExceeded steam_lib = 84"
    "TwoFactorCodeMismatch steam_lib = 88" "AccountLoginDeniedNeedTwoFactor steam_lib = 85"
    by (simp_all add: steam_lib_def)
  have two: "js_number 2 = ''2''"
    by (simp add: js_number_def show_nat.simps digit_char_def)
  show ?thesis
    using error_diagnosis [OF dist, of "JNum 2" "''Fail''" started]
      error_diagnosis [OF dist, of JUndefined "''Fail''" started] dist
    by (simp add: codes two)
qed

section \<open>The answer to the profile request\<close>

lemma fields_clearTimeout_request:
  "requests (clearTimeout_request k s) = (requests s)[k := (fst (requests s ! k), None)]"
  "testCompleted (clearTimeout_request k s) = testCompleted s"
  "exited (clearTimeout_request k s) = exited s"
  "exitTimer (clearTimeout_request k s) = exitTimer s"
  "console (clearTimeout_request k s) = console s"
  "reports (clearTimeout_request k s) = reports s"
  "testTimeout (clearTimeout_request k s) = testTimeout s"
  "gcTimeout (clearTimeout_request k s) = gcTimeout s"
  by (simp_all add: clearTimeout_request_def reports_def)

lemma cleared_request:
  "k < length (requests s) \<Longrightarrow> snd (requests (clearTimeout_request k s) ! k) = None"
  by (simp add: fields_clearTimeout_request)

lemma result_line_printed:
  "\<not> testCompleted s \<Longrightarrow> (''   - Result: '' @ r) \<in> set (console (completeTest lib now r s))"
  by (simp add: completeTest_fresh report_def)

lemma on_profile_as_completeTest:
  "on_profile lib now k payload s =
     completeTest lib now (case payload of Some p \<Rightarrow> ''SUCCESS'' | None \<Rightarrow> ''NO_DATA'')
       (console_log
          (case payload of
             Some p \<Rightarrow>
               [e_check @ '' Profile Request Successful! ('' @
                  js_number (now - fst (requests s ! k)) @ ''ms)'',
                e_chart @ '' Profile Data:'',
                ''   - Account ID: '' @ js_string (account_id p),
                ''   - Total Medals: '' @
                   show_nat (case medals_count p of None \<Rightarrow> 0 | Some n \<Rightarrow> n),
                ''   - Commendations: '' @ (case commendation p of None \<Rightarrow> ''{}'' | Some j \<Rightarrow> j),
                ''   - Level: '' @
                   (if truthy (player_level p) then js_string (player_level p) else ''Unknown'')]
           | None \<Rightarrow> [e_cross @ '' Profile Request Failed - No data received''])
          (clearTimeout_request k s))"
  by (cases payload) (simp_all add: on_profile_def Let_def)

section \<open>Exits and scheduled exits\<close>


lemma fields_requestTimeout_expired:
  "exitTimer (requestTimeout_expired lib now s) =
     (if testCompleted s then exitTimer s else Some (now + 1000, ''TIMEOUT''))"
  "exited (requestTimeout_expired lib now s) = exited s"
  by (simp_all add: requestTimeout_expired_def exitTimer_completeTest exited_completeTest prims)


lemma fields_on_profile:
  "exitTimer (on_profile lib now k payload s) =
     (if testCompleted s then exitTimer s
      else Some (now + 1000, case payload of Some p \<Rightarrow> ''SUCCESS'' | None \<Rightarrow> ''NO_DATA''))"
  "exited (on_profile lib now k payload s) = exited s"
  by (simp_all add: on_profile_as_completeTest exitTimer_completeTest exited_completeTest prims
      fields_clearTimeout_request)







lemma fields_startTest:
  "exited (startTest lib s) =
     (case totp_generateAuthCode lib (SHARED_SECRET s) of Inl m \<Rightarrow> Some 1 | Inr a \<Rightarrow> exited s)"
  "exitTimer (startTest lib s) = exitTimer s"
  "testTimeout (startTest lib s) = testTimeout s"
  "gcTimeout (startTest lib s) = gcTimeout s"
  "requests (startTest lib s) = requests s"
  "gcConnectStartTime (startTest lib s) = gcConnectStartTime s"
  "testStartTime (startTest lib s) = testStartTime s"
  "TEST_STEAM_ID (startTest lib s) = TEST_STEAM_ID s"
  "calls (startTest lib s) =
     (case totp_generateAuthCode lib (SHARED_SECRET s) of
        Inl m \<Rightarrow> calls s
      | Inr a \<Rightarrow> calls s @ [LogOn (STEAM_USERNAME s) (STEAM_PASSWORD s) a])"
  by (cases "totp_generateAuthCode lib (SHARED_SECRET s)";
      simp add: startTest_def Let_def console_log_def call_def process_exit_def)+

lemma succeeded_fields:
  "exited succeeded = None" "exitTimer succeeded = Some (1450, ''SUCCESS'')"
  "testCompleted succeeded"
  by (simp_all add: succeeded_def step_def handshaken_fields fields_on_profile compl_on_profile)

lemma throttled_fields:
  "exited throttled = None" "exitTimer throttled = Some (31150, ''TIMEOUT'')"
  "testCompleted throttled"
  by (simp_all add: throttled_def step_def handshaken_fields fields_requestTimeout_expired
      compl_requestTimeout_expired fields_clearTimeout_request)

section \<open>The verdict of a profile response\<close>

lemma reports_handshaken: "reports handshaken = 0"
  using reports_run [of steam_lib
      "[(50, LoggedOn ''76561198000000001'' (JStr ''prober'')), (150, ConnectedToGC)]" started]
    handshaken_fields(3) startup_fresh(2) [of steam_lib "Content (TopObject sample_config)" None 0]
  by (simp add: handshaken_def started_def)





section \<open>The exit code\<close>

text \<open>
  Claim C4. The exit code is to be 0 exactly when the verdict is Success. Take the run in
  which the profile arrives at 450: the run is finalized with \<^verbatim>\<open>'SUCCESS'\<close>, the report says
  so, and the exit scheduled for 1450 would end the process with code 0. When the Steam
  client emits \<^verbatim>\<open>error\<close> at 900, before that exit, the error handler ends the process with
  code 1: unlike the handlers of the two disconnections and of the timer of 5 minutes, it
  does not look at \<^verbatim>\<open>testCompleted\<close>. A disconnection at 900 leaves the process running,
  and so leaves the code 0 to the scheduled exit.
\<close>

theorem error_after_success_exits_1:
  "testCompleted succeeded \<and> exited succeeded = None \<and>
   exitTimer succeeded = Some (1450, ''SUCCESS'') \<and>
   ''   - Result: SUCCESS'' \<in> set (console succeeded) \<and>
   reports succeeded = 1 \<and>
   exited (step steam_lib 1450 ExitTimerFires succeeded) = Some 0 \<and>
   exited (step steam_lib 900 (SteamError ''LoggedInElsewhere'' (JNum 6)) succeeded) = Some 1 \<and>
   exited (step steam_lib 900 (Disconnected (JNum 3) (JStr ''NoConnection'')) succeeded) = None \<and>
   exited (step steam_lib 900 (DisconnectedFromGC (JNum 2)) succeeded) = None"
proof -
  let ?s1 = "console_log
      [e_check @ '' Profile Request Successful! ('' @
         js_number (450 - fst (requests handshaken ! 0)) @ ''ms)'',
       e_chart @ '' Profile Data:'',
       ''   - Account ID: '' @ js_string (account_id sample_profile),
       ''   - Total Medals: '' @
          show_nat (case medals_count sample_profile of None \<Rightarrow> 0 | Some n \<Rightarrow> n),
       ''   - Commendations: '' @
          (case commendation sample_profile of None \<Rightarrow> ''{}'' | Some j \<Rightarrow> j),
       ''   - Level: '' @
          (if truthy (player_level sample_profile) then js_string (player_level sample_profile)
           else ''Unknown'')]
      (clearTimeout_request 0 handshaken)"
  have st: "succeeded = completeTest steam_lib 450 ''SUCCESS'' ?s1"
    by (simp add: succeeded_def step_def handshaken_fields on_profile_as_completeTest)
  have n1: "\<not> testCompleted ?s1"
    by (simp add: prims fields_clearTimeout_request handshaken_fields)
  have line: "''   - Result: SUCCESS'' \<in> set (console succeeded)"
    using result_line_printed [OF n1, of "''SUCCESS''" steam_lib 450] by (simp add: st)
  have rep: "reports succeeded = 1"
    by (simp add: succeeded_def step_def handshaken_fields compl_on_profile reports_handshaken)
  have a: "exited (step steam_lib 1450 ExitTimerFires succeeded) = Some 0"
    by (simp add: step_def succeeded_fields prims exit_code_def)
  have b: "exited (step steam_lib 900 (SteamError ''LoggedInElsewhere'' (JNum 6)) succeeded) =
      Some 1"
    by (simp add: step_def succeeded_fields fields_on_error)
  have c: "exited (step steam_lib 900 (Disconnected (JNum 3) (JStr ''NoConnection'')) succeeded) =
      None"
    by (simp add: step_def succeeded_fields fields_on_disconnected)
  have d: "exited (step steam_lib 900 (DisconnectedFromGC (JNum 2)) succeeded) = None"
    by (simp add: step_def succeeded_fields fields_on_disconnectedFromGC)
  show ?thesis using line rep a b c d by (simp add: succeeded_fields)
qed

section \<open>The timeout of the profile request\<close>







section \<open>The required configuration\<close>

lemma first_missing_required:
  "(first_missing obj required = None) =
     (truthy (get_prop obj ''steam_username'') \<and> truthy (get_prop obj ''steam_password'') \<and>
      truthy (get_prop obj ''shared_secret''))"
  by (simp add: required_def)

lemma loadConfig_rejects:
  assumes "\<not> three_required_present cf"
  shows "snd (loadConfig cf) = Inl 1"
proof (cases cf)
  case NoFile
  then show ?thesis by (simp add: loadConfig_def)
next
  case (Unreadable m)
  then show ?thesis by (simp add: loadConfig_def)
next
  case (Content top)
  show ?thesis
  proof (cases top)
    case (TopObject obj)
    have "first_missing obj required \<noteq> None"
      using assms by (simp add: first_missing_required three_required_present_def Content TopObject)
    then obtain field where "first_missing obj required = Some field" by auto
    then show ?thesis by (simp add: loadConfig_def Content TopObject)
  next
    case TopNull
    then show ?thesis by (simp add: loadConfig_def Content)
  next
    case TopOther
    then show ?thesis by (simp add: loadConfig_def Content)
  qed
qed

lemma loadConfig_accepts:
  assumes "three_required_present (Content (TopObject obj))"
  shows "loadConfig (Content (TopObject obj)) =
    ([], Inr (if \<not> truthy (get_prop obj ''test_steam_id'')
              then obj(''test_steam_id'' \<mapsto> JStr ''76561199556731347'') else obj))"
proof -
  have "first_missing obj required = None"
    using assms by (simp add: first_missing_required three_required_present_def)
  then show ?thesis by (simp add: loadConfig_def)
qed

lemma startup_rejected:
  assumes "\<not> three_required_present cf"
  shows "exited (startup lib cf node_env t0) = Some 1"
    and "calls (startup lib cf node_env t0) = []"
    and "testTimeout (startup lib cf node_env t0) = None"
    and "gcTimeout (startup lib cf node_env t0) = None"
proof -
  obtain printed res where lc: "loadConfig cf = (printed, res)"
    by (cases "loadConfig cf")
  have res: "res = Inl 1" using loadConfig_rejects [OF assms] by (simp add: lc)
  show "exited (startup lib cf node_env t0) = Some 1"
    by (simp add: startup_def lc res prims)
  show "calls (startup lib cf node_env t0) = []"
    by (simp add: startup_def lc res fields_process_exit fields_console_log unassigned_def)
  show "testTimeout (startup lib cf node_env t0) = None"
    by (simp add: startup_def lc res fields_process_exit fields_console_log unassigned_def)
  show "gcTimeout (startup lib cf node_env t0) = None"
    by (simp add: startup_def lc res fields_process_exit fields_console_log unassigned_def)
qed

lemma fields_read_config:
  "STEAM_USERNAME (read_config config s) = get_prop config ''steam_username''"
  "STEAM_PASSWORD (read_config config s) = get_prop config ''steam_password''"
  "SHARED_SECRET (read_config config s) = get_prop config ''shared_secret''"
  "TEST_STEAM_ID (read_config config s) = get_prop config ''test_steam_id''"
  "exited (read_config config s) = exited s"
  "calls (read_config config s) = calls s"
  by (simp_all add: read_config_def)

lemma fields_init_state:
  "STEAM_USERNAME (init_state t0 s) = STEAM_USERNAME s"
  "STEAM_PASSWORD (init_state t0 s) = STEAM_PASSWORD s"
  "SHARED_SECRET (init_state t0 s) = SHARED_SECRET s"
  "TEST_STEAM_ID (init_state t0 s) = TEST_STEAM_ID s"
  "exited (init_state t0 s) = exited s"
  "calls (init_state t0 s) = calls s"
  "testTimeout (init_state t0 s) = Some (t0 + 300000)"
  "gcTimeout (init_state t0 s) = Some (t0 + 120000)"
  by (simp_all add: init_state_def)

lemma fields_console_log_consts:
  "STEAM_USERNAME (console_log ls s) = STEAM_USERNAME s"
  "STEAM_PASSWORD (console_log ls s) = STEAM_PASSWORD s"
  "SHARED_SECRET (console_log ls s) = SHARED_SECRET s"
  "TEST_STEAM_ID (console_log ls s) = TEST_STEAM_ID s"
  by (simp_all add: console_log_def)

lemma get_prop_defaulted:
  "get_prop (if \<not> truthy (get_prop obj ''test_steam_id'')
             then obj(''test_steam_id'' \<mapsto> JStr ''76561199556731347'') else obj) ''steam_username'' =
     get_prop obj ''steam_username''"
  "get_prop (if \<not> truthy (get_prop obj ''test_steam_id'')
             then obj(''test_steam_id'' \<mapsto> JStr ''76561199556731347'') else obj) ''steam_password'' =
     get_prop obj ''steam_password''"
  "get_prop (if \<not> truthy (get_prop obj ''test_steam_id'')
             then obj(''test_steam_id'' \<mapsto> JStr ''76561199556731347'') else obj) ''shared_secret'' =
     get_prop obj ''shared_secret''"
  "get_prop (if \<not> truthy (get_prop obj ''test_steam_id'')
             then obj(''test_steam_id'' \<mapsto> JStr ''76561199556731347'') else obj) ''test_steam_id'' =
     (if truthy (get_prop obj ''test_steam_id'') then get_prop obj ''test_steam_id''
      else JStr ''76561199556731347'')"
  by (simp_all add: get_prop_def)

lemma startup_accepted:
  assumes "three_required_present (Content (TopObject obj))"
  shows "TEST_STEAM_ID (startup lib (Content (TopObject obj)) node_env t0) =
           (if truthy (get_prop obj ''test_steam_id'') then get_prop obj ''test_steam_id''
            else JStr ''76561199556731347'')"
    and "exited (startup lib (Content (TopObject obj)) node_env t0) =
           (case totp_generateAuthCode lib (get_prop obj ''shared_secret'') of
              Inl m \<Rightarrow> Some 1 | Inr a \<Rightarrow> None)"
    and "calls (startup lib (Content (TopObject obj)) node_env t0) =
           (case totp_generateAuthCode lib (get_prop obj ''shared_secret'') of
              Inl m \<Rightarrow> []
            | Inr a \<Rightarrow> [LogOn (get_prop obj ''steam_username'') (get_prop obj ''steam_password'') a])"
    and "testTimeout (startup lib (Content (TopObject obj)) node_env t0) = Some (t0 + 300000)"
    and "gcTimeout (startup lib (Content (TopObject obj)) node_env t0) = Some (t0 + 120000)"
proof -
  note lc = loadConfig_accepts [OF assms]
  note fs = fields_startTest fields_init_state fields_read_config fields_console_log_consts
    prims fields_console_log get_prop_defaulted
  have un: "exited unassigned = None" "calls unassigned = []"
    by (simp_all add: unassigned_def)
  show "TEST_STEAM_ID (startup lib (Content (TopObject obj)) node_env t0) =
           (if truthy (get_prop obj ''test_steam_id'') then get_prop obj ''test_steam_id''
            else JStr ''76561199556731347'')"
    by (simp add: startup_def lc Let_def fs)
  show "exited (startup lib (Content (TopObject obj)) node_env t0) =
           (case totp_generateAuthCode lib (get_prop obj ''shared_secret'') of
              Inl m \<Rightarrow> Some 1 | Inr a \<Rightarrow> None)"
    by (cases "totp_generateAuthCode lib (get_prop obj ''shared_secret'')")
       (simp_all add: startup_def lc Let_def fs un)
  show "calls (startup lib (Content (TopObject obj)) node_env t0) =
           (case totp_generateAuthCode lib (get_prop obj ''shared_secret'') of
              Inl m \<Rightarrow> []
            | Inr a \<Rightarrow> [LogOn (get_prop obj ''steam_username'') (get_prop obj ''steam_password'') a])"
    by (cases "totp_generateAuthCode lib (get_prop obj ''shared_secret'')")
       (simp_all add: startup_def lc Let_def fs un)
  show "testTimeout (startup lib (Content (TopObject obj)) node_env t0) = Some (t0 + 300000)"
    by (simp add: startup_def lc Let_def fs)
  show "gcTimeout (startup lib (Content (TopObject obj)) node_env t0) = Some (t0 + 120000)"
    by (simp add: startup_def lc Let_def fs)
qed

text \<open>
  Claim C8 says that all four values are required, the target identifier too. A file with
  the three credentials and no \<^verbatim>\<open>test_steam_id\<close> does not end the process: the module body
  goes on with the default identifier, arms its timers and logs on.
\<close>

theorem target_id_optional_counterexample:
  "sample_config ''test_steam_id'' = None \<and>
   exited (startup steam_lib (Content (TopObject sample_config)) None 0) = None \<and>
   calls (startup steam_lib (Content (TopObject sample_config)) None 0) =
     [LogOn (JStr ''prober'') (JStr ''hunter2'') ''R4KQ7''] \<and>
   TEST_STEAM_ID (startup steam_lib (Content (TopObject sample_config)) None 0) =
     JStr ''76561199556731347'' \<and>
   testTimeout (startup steam_lib (Content (TopObject sample_config)) None 0) = Some 300000"
proof -
  have "sample_config ''test_steam_id'' = None" by (simp add: sample_config_def)
  then show ?thesis using started_fields by (simp add: started_def)
qed

text \<open>
  Claim C8 as amended. Three values are required: \<^verbatim>\<open>steam_username\<close>, \<^verbatim>\<open>steam_password\<close>
  and \<^verbatim>\<open>shared_secret\<close>. When \<^verbatim>\<open>config.json\<close> is absent, cannot be read or parsed, does
  not hold an object, or holds one in which any of the three is absent or falsy, the process
  ends with code 1 inside \<^verbatim>\<open>loadConfig\<close>: no timer is armed, no login is attempted and no
  completion report is printed. \<^verbatim>\<open>test_steam_id\<close> is not required: when the three are
  there, \<^verbatim>\<open>loadConfig\<close> returns the object, with \<^verbatim>\<open>test_steam_id\<close> set to
  \<^verbatim>\<open>76561199556731347\<close> when it is absent or falsy, and the process goes on to log in,
  unless the shared secret yields no code, which ends it with code 1 before the login.
\<close>

theorem required_configuration:
  "(\<not> three_required_present cf \<longrightarrow>
      exited (startup lib cf node_env t0) = Some 1 \<and>
      calls (startup lib cf node_env t0) = [] \<and>
      testTimeout (startup lib cf node_env t0) = None \<and>
      gcTimeout (startup lib cf node_env t0) = None \<and>
      reports (startup lib cf node_env t0) = 0) \<and>
   (three_required_present (Content (TopObject obj)) \<longrightarrow>
      snd (loadConfig (Content (TopObject obj))) =
        Inr (if truthy (get_prop obj ''test_steam_id'') then obj
             else obj(''test_steam_id'' \<mapsto> JStr ''76561199556731347'')) \<and>
      TEST_STEAM_ID (startup lib (Content (TopObject obj)) node_env t0) =
        (if truthy (get_prop obj ''test_steam_id'') then get_prop obj ''test_steam_id''
         else JStr ''76561199556731347'') \<and>
      exited (startup lib (Content (TopObject obj)) node_env t0) =
        (case totp_generateAuthCode lib (get_prop obj ''shared_secret'') of
           Inl m \<Rightarrow> Some 1 | Inr a \<Rightarrow> None) \<and>
      calls (startup lib (Content (TopObject obj)) node_env t0) =
        (case totp_generateAuthCode lib (get_prop obj ''shared_secret'') of
           Inl m \<Rightarrow> []
         | Inr a \<Rightarrow> [LogOn (get_prop obj ''steam_username'') (get_prop obj ''steam_password'') a]))"
proof (intro conjI impI)
  assume r: "\<not> three_required_present cf"
  show "exited (startup lib cf node_env t0) = Some 1" using r by (rule startup_rejected)
  show "calls (startup lib cf node_env t0) = []" using r by (rule startup_rejected)
  show "testTimeout (startup lib cf node_env t0) = None" using r by (rule startup_rejected)
  show "gcTimeout (startup lib cf node_env t0) = None" using r by (rule startup_rejected)
  show "reports (startup lib cf node_env t0) = 0" by (rule startup_fresh)
next
  assume a: "three_required_present (Content (TopObject obj))"
  show "snd (loadConfig (Content (TopObject obj))) =
        Inr (if truthy (get_prop obj ''test_steam_id'') then obj
             else obj(''test_steam_id'' \<mapsto> JStr ''76561199556731347''))"
    by (simp add: loadConfig_accepts [OF a])
  show "TEST_STEAM_ID (startup lib (Content (TopObject obj)) node_env t0) =
        (if truthy (get_prop obj ''test_steam_id'') then get_prop obj ''test_steam_id''
         else JStr ''76561199556731347'')"
    using a by (rule startup_accepted)
  show "exited (startup lib (Content (TopObject obj)) node_env t0) =
        (case totp_generateAuthCode lib (get_prop obj ''shared_secret'') of
           Inl m \<Rightarrow> Some 1 | Inr a \<Rightarrow> None)"
    using a by (rule startup_accepted)
  show "calls (startup lib (Content (TopObject obj)) node_env t0) =
        (case totp_generateAuthCode lib (get_prop obj ''shared_secret'') of
           Inl m \<Rightarrow> []
         | Inr a \<Rightarrow> [LogOn (get_prop obj ''steam_username'') (get_prop obj ''steam_password'') a])"
    using a by (rule startup_accepted)
qed

theorem required_configuration_witness:
  "\<not> three_required_present (Content (TopObject (sample_config(''shared_secret'' := None)))) \<and>
   exited (startup steam_lib (Content (TopObject (sample_config(''shared_secret'' := None))))
     None 0) = Some 1 \<and>
   calls (startup steam_lib (Content (TopObject (sample_config(''shared_secret'' := None))))
     None 0) = [] \<and>
   three_required_present (Content (TopObject sample_config)) \<and>
   TEST_STEAM_ID (startup steam_lib (Content (TopObject sample_config)) None 0) =
     JStr ''76561199556731347'' \<and>
   exited (startup steam_lib (Content (TopObject sample_config)) None 0) = None"
proof -
  have n: "\<not> three_required_present (Content (TopObject (sample_config(''shared_secret'' := None))))"
    by (simp add: three_required_present_def get_prop_def)
  have y: "three_required_present (Content (TopObject sample_config))"
    by (simp add: three_required_present_def get_prop_def sample_config_def)
  have t: "get_prop sample_config ''test_steam_id'' = JUndefined"
    "totp_generateAuthCode steam_lib (get_prop sample_config ''shared_secret'') = Inr ''R4KQ7''"
    by (simp_all add: get_prop_def sample_config_def steam_lib_def)
  show ?thesis
    using required_configuration [of "Content (TopObject (sample_config(''shared_secret'' := None)))"
        steam_lib None 0 sample_config] n y
    by (simp add: t)
qed

section \<open>The deadline of the coordinator connection\<close>

lemma late_login_fields:
  "gcConnectStartTime late_login = Some 119000" "gcTimeout late_login = Some 120000"
  "\<not> testCompleted late_login" "exited late_login = None"
  by (simp_all add: late_login_def step_def started_fields fields_on_loggedOn plain_on_loggedOn)

lemma console_gcTimeout_expired:
  "\<not> testCompleted s \<Longrightarrow> gcConnectStartTime s = Some t \<Longrightarrow> t \<noteq> 0 \<Longrightarrow>
   (e_cross @ '' GC Connection Timeout (2 minutes)'') \<in> set (console (gcTimeout_expired lib now s))"
  by (simp add: gcTimeout_expired_def completeTest_fresh prims fields_console_log)

text \<open>
  Claim C9 says that the deadline of the coordinator connection runs from the moment that
  stage is entered, and the comment on the timer of 2 minutes says the same
  (\<^verbatim>\<open>2 minutes after GC connection attempt starts\<close>). The module body arms the timer when the
  process starts. With the process started at 0 and the login done at 119000, the connection
  attempt starts at 119000 and the timer is due at 120000: it fires one second into the
  stage, prints the timeout of 2 minutes and finalizes the run with \<^verbatim>\<open>'GC_TIMEOUT'\<close>.
\<close>

theorem gc_deadline_runs_from_process_start:
  "testStartTime late_login = 0 \<and>
   gcConnectStartTime late_login = Some 119000 \<and>
   gcTimeout late_login = Some 120000 \<and>
   testCompleted (step steam_lib 120000 GcTimeoutFires late_login) \<and>
   exitTimer (step steam_lib 120000 GcTimeoutFires late_login) = Some (121000, ''GC_TIMEOUT'') \<and>
   (e_cross @ '' GC Connection Timeout (2 minutes)'') \<in>
     set (console (step steam_lib 120000 GcTimeoutFires late_login))"
proof -
  let ?s = "late_login\<lparr>gcTimeout := None\<rparr>"
  have st: "step steam_lib 120000 GcTimeoutFires late_login = gcTimeout_expired steam_lib 120000 ?s"
    by (simp add: step_def late_login_fields)
  have pre: "\<not> testCompleted ?s" "gcConnectStartTime ?s = Some 119000"
    by (simp_all add: late_login_fields)
  have t0: "testStartTime late_login = 0"
    by (simp add: late_login_def step_def started_fields fields_on_loggedOn)
  have a: "testCompleted (gcTimeout_expired steam_lib 120000 ?s)"
    using pre by (simp add: gcTimeout_expired_def testCompleted_completeTest)
  have b: "exitTimer (gcTimeout_expired steam_lib 120000 ?s) = Some (121000, ''GC_TIMEOUT'')"
    using pre by (simp add: gcTimeout_expired_def exitTimer_completeTest prims)
  have c: "(e_cross @ '' GC Connection Timeout (2 minutes)'') \<in>
     set (console (gcTimeout_expired steam_lib 120000 ?s))"
    using pre by (intro console_gcTimeout_expired [where t = 119000]) simp_all
  show ?thesis using t0 a b c by (simp add: st late_login_fields)
qed

end
